theory Spec2Isabelle
  imports Complex_Main "HOL-Library.Multiset" "HOL-Library.Product_Lexorder"
begin

section \<open>Python values\<close>

text \<open>
  The aggregator works on the decoded JSON payload of the provider: Python dicts, lists,
  strings, numbers, booleans and \<^verbatim>\<open>None\<close>. A dict is an association list; a lookup
  takes the first binding of a key. A Python dict never holds a key twice, so every dict
  is an association list with distinct keys.
\<close>

datatype py_error = AttributeError | TypeError | ValueError | OverflowError | KeyError

text \<open>
  A Python float is an IEEE double: not-a-number, the two infinities, or a rational
  that a double represents (the two zeros are one value here; they compare equal).
\<close>

datatype pyfloat = NaN | NegInf | Finite rat | PosInf

datatype json =
    JNull
  | JBool bool
  | JInt int
  | JFloat pyfloat
  | JStr string
  | JList "json list"
  | JDict "(string \<times> json) list"

text \<open>A raised exception is \<open>Inl\<close>; \<open>bnd\<close> runs the rest only after a normal return.\<close>

definition bnd :: "'e + 'a \<Rightarrow> ('a \<Rightarrow> 'e + 'b) \<Rightarrow> 'e + 'b" where
  "bnd m f = (case m of Inl e \<Rightarrow> Inl e | Inr v \<Rightarrow> f v)"

text \<open>A \<^verbatim>\<open>for\<close> loop (or comprehension) that builds a list; the first raise ends it.\<close>

fun for_each :: "('a \<Rightarrow> 'e + 'b) \<Rightarrow> 'a list \<Rightarrow> 'e + 'b list" where
  "for_each f [] = Inr []"
| "for_each f (x # xs) = bnd (f x) (\<lambda>y. bnd (for_each f xs) (\<lambda>ys. Inr (y # ys)))"

text \<open>\<^verbatim>\<open>obj.get(key, dflt)\<close>: only a dict has the method.\<close>

definition py_get :: "json \<Rightarrow> string \<Rightarrow> json \<Rightarrow> py_error + json" where
  "py_get obj key dflt =
     (case obj of
        JDict kvs \<Rightarrow> Inr (case map_of kvs key of None \<Rightarrow> dflt | Some v \<Rightarrow> v)
      | _ \<Rightarrow> Inl AttributeError)"

text \<open>\<^verbatim>\<open>obj[key]\<close> with a string key.\<close>

definition py_subscript :: "json \<Rightarrow> string \<Rightarrow> py_error + json" where
  "py_subscript obj key =
     (case obj of
        JDict kvs \<Rightarrow> (case map_of kvs key of None \<Rightarrow> Inl KeyError | Some v \<Rightarrow> Inr v)
      | _ \<Rightarrow> Inl TypeError)"

text \<open>
  What a \<^verbatim>\<open>for\<close> loop walks: the elements of a list, the keys of a dict, the
  characters of a string; anything else is not iterable.
\<close>

definition py_iter :: "json \<Rightarrow> py_error + json list" where
  "py_iter obj =
     (case obj of
        JList xs \<Rightarrow> Inr xs
      | JDict kvs \<Rightarrow> Inr (map (\<lambda>kv. JStr (fst kv)) kvs)
      | JStr s \<Rightarrow> Inr (map (\<lambda>c. JStr [c]) s)
      | _ \<Rightarrow> Inl TypeError)"

text \<open>Truth value of an object, as \<^verbatim>\<open>if obj\<close> and \<^verbatim>\<open>not obj\<close> test it.\<close>

definition py_truthy :: "json \<Rightarrow> bool" where
  "py_truthy obj =
     (case obj of
        JNull \<Rightarrow> False
      | JBool b \<Rightarrow> b
      | JInt i \<Rightarrow> i \<noteq> 0
      | JFloat f \<Rightarrow> f \<noteq> Finite 0
      | JStr s \<Rightarrow> s \<noteq> []
      | JList xs \<Rightarrow> xs \<noteq> []
      | JDict kvs \<Rightarrow> kvs \<noteq> [])"

text \<open>\<^verbatim>\<open>len(obj)\<close>.\<close>

definition py_len :: "json \<Rightarrow> py_error + nat" where
  "py_len obj =
     (case obj of
        JList xs \<Rightarrow> Inr (length xs)
      | JDict kvs \<Rightarrow> Inr (length kvs)
      | JStr s \<Rightarrow> Inr (length s)
      | _ \<Rightarrow> Inl TypeError)"

section \<open>Floats: comparison, rounding, \<^verbatim>\<open>float()\<close>\<close>

text \<open>The comparison \<^verbatim>\<open>a < b\<close> of two floats: false whenever one is not-a-number.\<close>

fun float_lt :: "pyfloat \<Rightarrow> pyfloat \<Rightarrow> bool" where
  "float_lt NaN b = False"
| "float_lt a NaN = False"
| "float_lt NegInf b = (b \<noteq> NegInf)"
| "float_lt PosInf b = False"
| "float_lt (Finite x) NegInf = False"
| "float_lt (Finite x) PosInf = True"
| "float_lt (Finite x) (Finite y) = (x < y)"

text \<open>
  The comparison \<^verbatim>\<open>a <= b\<close>.
\<close>

fun float_le :: "pyfloat \<Rightarrow> pyfloat \<Rightarrow> bool" where
  "float_le NaN b = False"
| "float_le a NaN = False"
| "float_le a b = (a = b \<or> float_lt a b)"

fun float_neg :: "pyfloat \<Rightarrow> pyfloat" where
  "float_neg NaN = NaN"
| "float_neg NegInf = PosInf"
| "float_neg PosInf = NegInf"
| "float_neg (Finite x) = Finite (- x)"

text \<open>
  Rounding a rational to the nearest double, ties to even: 53 significant bits, least
  binary exponent \<open>-1022\<close> (below it the spacing stays \<open>2 ^ -1074\<close>), and overflow to
  an infinity from \<open>2 ^ 1024\<close> on.
\<close>

function bit_length :: "int \<Rightarrow> nat" where
  "bit_length n = (if n \<le> 0 then 0 else Suc (bit_length (n div 2)))"
  by pat_completeness auto
termination
  by (relation "measure nat") auto

declare bit_length.simps [simp del]

definition pow2 :: "int \<Rightarrow> rat" where
  "pow2 e = (if 0 \<le> e then 2 ^ nat e else 1 / 2 ^ nat (- e))"

definition pow10 :: "int \<Rightarrow> rat" where
  "pow10 e = (if 0 \<le> e then 10 ^ nat e else 1 / 10 ^ nat (- e))"

definition round_half_even :: "rat \<Rightarrow> int" where
  "round_half_even q =
     (let f = \<lfloor>q\<rfloor>; d = q - of_int f
      in if d < 1 / 2 then f else if 1 / 2 < d then f + 1 else if even f then f else f + 1)"

text \<open>For \<open>0 < q\<close>: the \<open>e\<close> with \<open>2 ^ e \<le> q < 2 ^ (e + 1)\<close>.\<close>

definition binary_exponent :: "rat \<Rightarrow> int" where
  "binary_exponent q =
     (let e0 = int (bit_length (fst (quotient_of q))) -
               int (bit_length (snd (quotient_of q)))
      in if pow2 e0 \<le> q then e0 else e0 - 1)"

definition round_double :: "rat \<Rightarrow> pyfloat" where
  "round_double q =
     (if q = 0 then Finite 0
      else
        let a = \<bar>q\<bar>;
            e = max (binary_exponent a) (- 1022);
            ulp = pow2 (e - 52);
            v = of_int (round_half_even (a / ulp)) * ulp
        in if pow2 1024 \<le> v then (if q < 0 then NegInf else PosInf)
           else Finite (if q < 0 then - v else v))"

text \<open>
  The float that a numeral written in ASCII denotes, as \<^verbatim>\<open>float(s)\<close> reads it:
  white space (space, tab, line feed, vertical tab, form feed, carriage return) is
  stripped at both ends, an underscore may stand between two digits, then an optional
  sign and either \<^verbatim>\<open>inf\<close>, \<^verbatim>\<open>infinity\<close>, \<^verbatim>\<open>nan\<close> in any case, or a decimal
  numeral with an optional fraction and exponent; the whole string has to match. It is
  \<open>None\<close> on every string that is no such numeral, which says nothing on what
  \<^verbatim>\<open>float\<close> does there. The examples take their float values from it.
\<close>

definition is_digit :: "char \<Rightarrow> bool" where
  "is_digit c = (48 \<le> (of_char c :: nat) \<and> (of_char c :: nat) \<le> 57)"

definition digit_value :: "char \<Rightarrow> int" where
  "digit_value c = of_char c - 48"

definition is_space :: "char \<Rightarrow> bool" where
  "is_space c = ((of_char c :: nat) = 32 \<or> (9 \<le> (of_char c :: nat) \<and> (of_char c :: nat) \<le> 13))"

definition to_lower :: "char \<Rightarrow> char" where
  "to_lower c =
     (if 65 \<le> (of_char c :: nat) \<and> (of_char c :: nat) \<le> 90
      then char_of ((of_char c :: nat) + 32) else c)"

definition digits_value :: "string \<Rightarrow> int" where
  "digits_value ds = foldl (\<lambda>acc c. 10 * acc + digit_value c) 0 ds"

definition strip :: "string \<Rightarrow> string" where
  "strip s = rev (dropWhile is_space (rev (dropWhile is_space s)))"

fun drop_underscores :: "char \<Rightarrow> string \<Rightarrow> string option" where
  "drop_underscores prev [] = (if prev = CHR ''_'' then None else Some [])"
| "drop_underscores prev (c # cs) =
     (if c = CHR ''_'' then (if is_digit prev then drop_underscores c cs else None)
      else if prev = CHR ''_'' \<and> \<not> is_digit c then None
      else map_option ((#) c) (drop_underscores c cs))"

definition parse_exponent :: "string \<Rightarrow> int option" where
  "parse_exponent r =
     (case r of
        [] \<Rightarrow> Some 0
      | c # r' \<Rightarrow>
          if c = CHR ''e'' \<or> c = CHR ''E'' then
            (let (sgn, ds) =
               (case r' of
                  [] \<Rightarrow> (1, [])
                | d # r'' \<Rightarrow>
                    if d = CHR ''-'' then (- 1, r'')
                    else if d = CHR ''+'' then (1, r'') else (1, r'))
             in if ds \<noteq> [] \<and> list_all is_digit ds then Some (sgn * digits_value ds)
                else None)
          else None)"

definition parse_decimal :: "string \<Rightarrow> rat option" where
  "parse_decimal s =
     (let ip = takeWhile is_digit s;
          r1 = dropWhile is_digit s;
          (fp, r2) =
            (case r1 of
               [] \<Rightarrow> ([], [])
             | c # r \<Rightarrow>
                 if c = CHR ''.'' then (takeWhile is_digit r, dropWhile is_digit r)
                 else ([], r1))
      in if ip = [] \<and> fp = [] then None
         else
           (case parse_exponent r2 of
              None \<Rightarrow> None
            | Some ex \<Rightarrow>
                Some (of_int (digits_value (ip @ fp)) * pow10 (ex - int (length fp)))))"

definition parse_unsigned :: "string \<Rightarrow> pyfloat option" where
  "parse_unsigned s =
     (let l = map to_lower s
      in if l = ''inf'' \<or> l = ''infinity'' then Some PosInf
         else if l = ''nan'' then Some NaN
         else map_option round_double (parse_decimal s))"

definition decimal_float :: "string \<Rightarrow> pyfloat option" where
  "decimal_float s =
     (case drop_underscores (CHR 0x00) (strip s) of
        None \<Rightarrow> None
      | Some u \<Rightarrow>
          (let (neg, body) =
             (case u of
                [] \<Rightarrow> (False, [])
              | c # r \<Rightarrow>
                  if c = CHR ''-'' then (True, r)
                  else if c = CHR ''+'' then (False, r) else (False, u))
           in map_option (\<lambda>f. if neg then float_neg f else f) (parse_unsigned body)))"

text \<open>
  What the program takes from the Python runtime and the model does not spell out.
  \<open>str_float\<close> is \<^verbatim>\<open>float(s)\<close> on a string, \<open>None\<close> where it raises
  \<^verbatim>\<open>ValueError\<close>: which strings CPython reads as numerals (white space and decimal
  digits beyond ASCII among them) is left to the runtime. \<open>sort_unordered\<close> is the
  order in which \<^verbatim>\<open>list.sort\<close> leaves a list one of whose keys is not-a-number:
  there \<^verbatim>\<open><\<close> is no order, and the result depends on the steps of CPython's
  merge sort. Every theorem below holds for every runtime.
\<close>

record py_runtime =
  str_float :: "string \<Rightarrow> pyfloat option"
  sort_unordered :: "(pyfloat \<times> json) list \<Rightarrow> (pyfloat \<times> json) list"

text \<open>
  \<^verbatim>\<open>float(obj)\<close>: a string is parsed, a float is itself, an int (and a bool, which is
  an int) is rounded, and \<^verbatim>\<open>None\<close>, a list or a dict is a \<^verbatim>\<open>TypeError\<close>.
\<close>

definition py_float :: "py_runtime \<Rightarrow> json \<Rightarrow> py_error + pyfloat" where
  "py_float rt obj =
     (case obj of
        JStr s \<Rightarrow> (case str_float rt s of None \<Rightarrow> Inl ValueError | Some f \<Rightarrow> Inr f)
      | JFloat f \<Rightarrow> Inr f
      | JInt i \<Rightarrow>
          (case round_double (of_int i) of
             Finite r \<Rightarrow> Inr (Finite r)
           | _ \<Rightarrow> Inl OverflowError)
      | JBool b \<Rightarrow> Inr (Finite (if b then 1 else 0))
      | _ \<Rightarrow> Inl TypeError)"

section \<open>The offer normalizer\<close>

text \<open>
  \<^verbatim>\<open>obj.get(k1, {}).get(k2)\<close>, the access \<^verbatim>\<open>parse_flight_offer\<close> makes for
  every nested field.
\<close>

definition get2 :: "json \<Rightarrow> string \<Rightarrow> string \<Rightarrow> py_error + json" where
  "get2 obj k1 k2 = bnd (py_get obj k1 (JDict [])) (\<lambda>d. py_get d k2 JNull)"

text \<open>The dict appended for one segment; the fields are evaluated in source order.\<close>

definition parse_segment :: "json \<Rightarrow> py_error + json" where
  "parse_segment segment =
     bnd (get2 segment ''departure'' ''iataCode'') (\<lambda>dep_airport.
     bnd (get2 segment ''departure'' ''at'') (\<lambda>dep_time.
     bnd (get2 segment ''departure'' ''terminal'') (\<lambda>dep_terminal.
     bnd (get2 segment ''arrival'' ''iataCode'') (\<lambda>arr_airport.
     bnd (get2 segment ''arrival'' ''at'') (\<lambda>arr_time.
     bnd (get2 segment ''arrival'' ''terminal'') (\<lambda>arr_terminal.
     bnd (py_get segment ''carrierCode'' JNull) (\<lambda>carrier.
     bnd (py_get segment ''number'' JNull) (\<lambda>flight_number.
     bnd (get2 segment ''aircraft'' ''code'') (\<lambda>aircraft.
     bnd (py_get segment ''duration'' JNull) (\<lambda>duration.
     Inr (JDict
       [(''departure'', JDict [(''airport'', dep_airport), (''time'', dep_time),
                               (''terminal'', dep_terminal)]),
        (''arrival'', JDict [(''airport'', arr_airport), (''time'', arr_time),
                             (''terminal'', arr_terminal)]),
        (''carrier'', carrier),
        (''flight_number'', flight_number),
        (''aircraft'', aircraft),
        (''duration'', duration)])))))))))))"

text \<open>The body of the outer loop: the inner loop over the segments, then the dict appended.\<close>

definition parse_itinerary :: "json \<Rightarrow> py_error + json" where
  "parse_itinerary itinerary =
     bnd (py_get itinerary ''segments'' (JList [])) (\<lambda>segs.
     bnd (py_iter segs) (\<lambda>seg_list.
     bnd (for_each parse_segment seg_list) (\<lambda>segments.
     bnd (py_get itinerary ''duration'' JNull) (\<lambda>duration.
     Inr (JDict [(''duration'', duration), (''segments'', JList segments)])))))"

definition parse_flight_offer :: "json \<Rightarrow> py_error + json" where
  "parse_flight_offer offer =
     bnd (py_get offer ''id'' JNull) (\<lambda>offer_id.
     bnd (get2 offer ''price'' ''total'') (\<lambda>total.
     bnd (get2 offer ''price'' ''currency'') (\<lambda>currency.
     bnd (py_get offer ''itineraries'' (JList [])) (\<lambda>its.
     bnd (py_iter its) (\<lambda>it_list.
     bnd (for_each parse_itinerary it_list) (\<lambda>itineraries.
     Inr (JDict
       [(''id'', offer_id),
        (''price'', JDict [(''total'', total), (''currency'', currency)]),
        (''itineraries'', JList itineraries)])))))))"

section \<open>The search request and the external search capability\<close>

text \<open>The arguments of \<^verbatim>\<open>search_flights\<close>, with \<^verbatim>\<open>return_date: Optional[str]\<close>.\<close>

record search_request =
  origin :: string
  destination :: string
  departure_date :: string
  adults :: int
  return_date :: "string option"
  max_results :: int
  currency :: string
  non_stop :: bool

text \<open>
  A call that passes the three positional arguments only: the other parameters take the
  defaults of the signature.
\<close>

definition with_defaults :: "string \<Rightarrow> string \<Rightarrow> string \<Rightarrow> search_request" where
  "with_defaults origin_code destination_code date =
     \<lparr>origin = origin_code, destination = destination_code, departure_date = date,
      adults = 1, return_date = None, max_results = 10, currency = ''USD'',
      non_stop = False\<rparr>"

text \<open>
  The dict \<^verbatim>\<open>params\<close> that \<^verbatim>\<open>search_flights\<close> builds and passes on as keyword
  arguments. \<^verbatim>\<open>if return_date:\<close> tests the truth value: \<^verbatim>\<open>None\<close> and the
  empty string add no key.
\<close>

definition request_params :: "search_request \<Rightarrow> (string \<times> json) list" where
  "request_params req =
     [(''originLocationCode'', JStr (origin req)),
      (''destinationLocationCode'', JStr (destination req)),
      (''departureDate'', JStr (departure_date req)),
      (''adults'', JInt (adults req)),
      (''max'', JInt (max_results req)),
      (''currencyCode'', JStr (currency req)),
      (''nonStop'', JBool (non_stop req))]
     @ (case return_date req of
          None \<Rightarrow> []
        | Some d \<Rightarrow> if d \<noteq> [] then [(''returnDate'', JStr d)] else [])"

text \<open>
  The return date as \<^verbatim>\<open>FlightSearchGUI._perform_search\<close> sets it: \<^verbatim>\<open>None\<close>
  unless the round-trip box is ticked; \<open>return_cal\<close> is the text that \<^verbatim>\<open>strftime\<close>
  gives for the chosen day.
\<close>

definition perform_search_return_date :: "bool \<Rightarrow> string \<Rightarrow> string option" where
  "perform_search_return_date return_enabled return_cal =
     (if return_enabled then Some return_cal else None)"

text \<open>
  The external search capability, \<^verbatim>\<open>amadeus.shopping.flight_offers_search.get\<close>: it
  receives the parameters and either returns a response, of which the code reads
  \<^verbatim>\<open>data\<close>, or raises \<^verbatim>\<open>ResponseError\<close> (the client's transport, authentication
  and server failures).
\<close>

datatype api_outcome = Response json | ResponseError

type_synonym search_capability = "(string \<times> json) list \<Rightarrow> api_outcome"

text \<open>
  \<^verbatim>\<open>search_flights\<close>: the handler turns \<^verbatim>\<open>ResponseError\<close> into the empty list.
  The printing is left out, but for \<^verbatim>\<open>len(response.data)\<close>, evaluated for a
  truthy \<^verbatim>\<open>data\<close> inside the \<^verbatim>\<open>try\<close>, whose \<^verbatim>\<open>TypeError\<close> the handler does
  not catch.
\<close>

definition search_flights :: "search_capability \<Rightarrow> search_request \<Rightarrow> py_error + json" where
  "search_flights api req =
     (case api (request_params req) of
        ResponseError \<Rightarrow> Inr (JList [])
      | Response data \<Rightarrow>
          if py_truthy data then bnd (py_len data) (\<lambda>n. Inr data) else Inr data)"

section \<open>The ranking pipeline\<close>

text \<open>The sort key \<^verbatim>\<open>lambda x: float(x['price']['total'])\<close>.\<close>

definition price_key :: "py_runtime \<Rightarrow> json \<Rightarrow> py_error + pyfloat" where
  "price_key rt x =
     bnd (py_subscript x ''price'') (\<lambda>price.
     bnd (py_subscript price ''total'') (\<lambda>total. py_float rt total))"

text \<open>
  \<^verbatim>\<open>list.sort(key=...)\<close> computes the key of every element first, in order, and
  raises what the first failing key raises; then it sorts the elements by their keys,
  comparing with \<^verbatim>\<open><\<close> only, and it is stable. On keys that \<^verbatim>\<open><\<close> orders
  (floats other than not-a-number) a stable sort has one possible result, so the
  insertion sort below returns the list that CPython's merge sort returns. With a
  not-a-number key the result is the runtime's \<open>sort_unordered\<close>; \<^verbatim>\<open>list.sort\<close>
  rearranges the list and never loses or repeats an element, so a \<open>sort_unordered\<close>
  that is no rearrangement is not taken.
\<close>

fun insort_lt :: "pyfloat \<times> 'a \<Rightarrow> (pyfloat \<times> 'a) list \<Rightarrow> (pyfloat \<times> 'a) list" where
  "insort_lt x [] = [x]"
| "insort_lt x (y # ys) =
     (if float_lt (fst y) (fst x) then y # insort_lt x ys else x # y # ys)"

definition insertion_sort :: "(pyfloat \<times> 'a) list \<Rightarrow> (pyfloat \<times> 'a) list" where
  "insertion_sort kxs = foldr insort_lt kxs []"

definition py_sort :: "py_runtime \<Rightarrow> (pyfloat \<times> json) list \<Rightarrow> (pyfloat \<times> json) list" where
  "py_sort rt kxs =
     (if list_all (\<lambda>kx. fst kx \<noteq> NaN) kxs then insertion_sort kxs
      else if mset (sort_unordered rt kxs) = mset kxs then sort_unordered rt kxs
      else kxs)"

definition sort_by_price :: "py_runtime \<Rightarrow> json list \<Rightarrow> py_error + json list" where
  "sort_by_price rt parsed_offers =
     bnd (for_each (price_key rt) parsed_offers) (\<lambda>keys.
     Inr (map snd (py_sort rt (zip keys parsed_offers))))"

definition compare_flights ::
  "py_runtime \<Rightarrow> search_capability \<Rightarrow> search_request \<Rightarrow> py_error + json list" where
  "compare_flights rt api req =
     bnd (search_flights api req) (\<lambda>offers.
     if \<not> py_truthy offers then Inr []
     else
       bnd (py_iter offers) (\<lambda>offer_list.
       bnd (for_each parse_flight_offer offer_list) (\<lambda>parsed_offers.
       sort_by_price rt parsed_offers)))"

section \<open>What the claims speak of\<close>

text \<open>
  The value of a field, \<^verbatim>\<open>None\<close> where the field is absent; the list under a key,
  empty where there is none; and the keys a dict holds.
\<close>

definition field :: "json \<Rightarrow> string \<Rightarrow> json" where
  "field obj key =
     (case obj of
        JDict kvs \<Rightarrow> (case map_of kvs key of None \<Rightarrow> JNull | Some v \<Rightarrow> v)
      | _ \<Rightarrow> JNull)"

definition has_key :: "json \<Rightarrow> string \<Rightarrow> bool" where
  "has_key obj key = (case obj of JDict kvs \<Rightarrow> map_of kvs key \<noteq> None | _ \<Rightarrow> False)"

definition dict_keys :: "json \<Rightarrow> string list" where
  "dict_keys obj = (case obj of JDict kvs \<Rightarrow> map fst kvs | _ \<Rightarrow> [])"

definition items :: "json \<Rightarrow> string \<Rightarrow> json list" where
  "items obj key = (case field obj key of JList xs \<Rightarrow> xs | _ \<Rightarrow> [])"

text \<open>
  The shape \<^verbatim>\<open>parse_flight_offer\<close> reads: the offer, each itinerary and each segment
  is a mapping; \<^verbatim>\<open>price\<close>, \<^verbatim>\<open>departure\<close>, \<^verbatim>\<open>arrival\<close> and \<^verbatim>\<open>aircraft\<close>,
  where present, are mappings; \<^verbatim>\<open>itineraries\<close> and \<^verbatim>\<open>segments\<close>, where present,
  are lists. Every field may be missing, and the other fields hold any value.
\<close>

definition is_dict :: "json \<Rightarrow> bool" where
  "is_dict obj = (case obj of JDict kvs \<Rightarrow> True | _ \<Rightarrow> False)"

definition dict_or_absent :: "json \<Rightarrow> string \<Rightarrow> bool" where
  "dict_or_absent obj key = (\<not> has_key obj key \<or> is_dict (field obj key))"

definition list_or_absent :: "json \<Rightarrow> string \<Rightarrow> bool" where
  "list_or_absent obj key =
     (\<not> has_key obj key \<or> (case field obj key of JList xs \<Rightarrow> True | _ \<Rightarrow> False))"

definition segment_shape :: "json \<Rightarrow> bool" where
  "segment_shape seg \<longleftrightarrow>
     is_dict seg \<and> dict_or_absent seg ''departure'' \<and> dict_or_absent seg ''arrival''
     \<and> dict_or_absent seg ''aircraft''"

definition itinerary_shape :: "json \<Rightarrow> bool" where
  "itinerary_shape it \<longleftrightarrow>
     is_dict it \<and> list_or_absent it ''segments'' \<and> list_all segment_shape (items it ''segments'')"

definition offer_shape :: "json \<Rightarrow> bool" where
  "offer_shape offer \<longleftrightarrow>
     is_dict offer \<and> dict_or_absent offer ''price'' \<and> list_or_absent offer ''itineraries''
     \<and> list_all itinerary_shape (items offer ''itineraries'')"

text \<open>
  The ParsedOffer of the specification, written with \<open>field\<close>: every field of the
  output is there, \<^verbatim>\<open>None\<close> where the source has none.
\<close>

definition normalized_endpoint :: "json \<Rightarrow> json" where
  "normalized_endpoint e =
     JDict [(''airport'', field e ''iataCode''), (''time'', field e ''at''),
            (''terminal'', field e ''terminal'')]"

definition normalized_segment :: "json \<Rightarrow> json" where
  "normalized_segment seg =
     JDict
       [(''departure'', normalized_endpoint (field seg ''departure'')),
        (''arrival'', normalized_endpoint (field seg ''arrival'')),
        (''carrier'', field seg ''carrierCode''),
        (''flight_number'', field seg ''number''),
        (''aircraft'', field (field seg ''aircraft'') ''code''),
        (''duration'', field seg ''duration'')]"

definition normalized_itinerary :: "json \<Rightarrow> json" where
  "normalized_itinerary it =
     JDict [(''duration'', field it ''duration''),
            (''segments'', JList (map normalized_segment (items it ''segments'')))]"

definition normalized_offer :: "json \<Rightarrow> json" where
  "normalized_offer offer =
     JDict
       [(''id'', field offer ''id''),
        (''price'', JDict [(''total'', field (field offer ''price'') ''total''),
                           (''currency'', field (field offer ''price'') ''currency'')]),
        (''itineraries'', JList (map normalized_itinerary (items offer ''itineraries'')))]"

text \<open>
  A Segment record with every key present, and \<^verbatim>\<open>None\<close> for the aircraft and the
  terminals that the raw segment lacks.
\<close>

definition segment_complete :: "json \<Rightarrow> json \<Rightarrow> bool" where
  "segment_complete seg out \<longleftrightarrow>
     dict_keys out = [''departure'', ''arrival'', ''carrier'', ''flight_number'',
                      ''aircraft'', ''duration'']
     \<and> dict_keys (field out ''departure'') = [''airport'', ''time'', ''terminal'']
     \<and> dict_keys (field out ''arrival'') = [''airport'', ''time'', ''terminal'']
     \<and> (\<not> has_key (field seg ''aircraft'') ''code'' \<longrightarrow> field out ''aircraft'' = JNull)
     \<and> (\<not> has_key (field seg ''departure'') ''terminal''
          \<longrightarrow> field (field out ''departure'') ''terminal'' = JNull)
     \<and> (\<not> has_key (field seg ''arrival'') ''terminal''
          \<longrightarrow> field (field out ''arrival'') ''terminal'' = JNull)"

text \<open>
  The price total of a raw offer, \<^verbatim>\<open>None\<close> where the price or its total is absent,
  and the price total of a parsed offer as a float (not-a-number where the key raises).
\<close>

definition raw_total :: "json \<Rightarrow> json" where
  "raw_total offer = field (field offer ''price'') ''total''"

definition price_of :: "py_runtime \<Rightarrow> json \<Rightarrow> pyfloat" where
  "price_of rt x = (case price_key rt x of Inr f \<Rightarrow> f | Inl e \<Rightarrow> NaN)"

text \<open>
  What \<^verbatim>\<open>float\<close> makes of a price total. It raises (\<open>\<not> parseable\<close>: the total cannot
  be parsed), or it returns a number (\<open>parses_as_number\<close>: a finite value or an
  infinity), or it returns not-a-number, for the text \<^verbatim>\<open>nan\<close> and for a JSON number
  that is one. \<open>has_price\<close> says of a parsed offer that its key is a number.
\<close>

definition parseable :: "py_runtime \<Rightarrow> json \<Rightarrow> bool" where
  "parseable rt t = (case py_float rt t of Inr f \<Rightarrow> True | Inl e \<Rightarrow> False)"

definition parses_as_number :: "py_runtime \<Rightarrow> json \<Rightarrow> bool" where
  "parses_as_number rt t = (case py_float rt t of Inr f \<Rightarrow> f \<noteq> NaN | Inl e \<Rightarrow> False)"

definition has_price :: "py_runtime \<Rightarrow> json \<Rightarrow> bool" where
  "has_price rt x = (case price_key rt x of Inr f \<Rightarrow> f \<noteq> NaN | Inl e \<Rightarrow> False)"

text \<open>
  The floats other than not-a-number in their order, as pairs ordered lexicographically;
  the proofs carry \<open>py_sort\<close> over to the library's stable \<open>sort_key\<close> with it.
\<close>

definition float_rank :: "pyfloat \<Rightarrow> int \<times> rat" where
  "float_rank f =
     (case f of NegInf \<Rightarrow> (- 1, 0) | Finite x \<Rightarrow> (0, x) | PosInf \<Rightarrow> (1, 0) | NaN \<Rightarrow> (2, 0))"

section \<open>Example inputs\<close>

text \<open>
  A runtime for the examples: its \<^verbatim>\<open>float\<close> reads the numerals in ASCII, and it
  leaves a list with a not-a-number key as it is.
\<close>

definition decimal_runtime :: py_runtime where
  "decimal_runtime = \<lparr>str_float = decimal_float, sort_unordered = (\<lambda>kxs. kxs)\<rparr>"

text \<open>A one-way search with the defaults, and the same search with a return date.\<close>

definition example_request :: search_request where
  "example_request = with_defaults ''JFK'' ''LAX'' ''2026-03-01''"

definition round_trip_request :: search_request where
  "round_trip_request = example_request\<lparr>return_date := Some ''2026-03-08''\<rparr>"

text \<open>
  A capability that finds nothing, one whose call fails, and one that returns the given
  raw offers.
\<close>

definition api_no_offers :: search_capability where
  "api_no_offers params = Response (JList [])"

definition api_transport_failure :: search_capability where
  "api_transport_failure params = ResponseError"

definition api_returning :: "json list \<Rightarrow> search_capability" where
  "api_returning raw params = Response (JList raw)"

text \<open>
  A segment without aircraft and without departure terminal, and an offer without price
  that holds it beside an empty segment and an empty itinerary.
\<close>

definition segment_no_terminal :: json where
  "segment_no_terminal =
     JDict
       [(''departure'', JDict [(''iataCode'', JStr ''JFK''), (''at'', JStr ''2026-03-01T08:00:00'')]),
        (''arrival'', JDict [(''iataCode'', JStr ''LAX''), (''at'', JStr ''2026-03-01T11:30:00''),
                             (''terminal'', JStr ''4'')]),
        (''carrierCode'', JStr ''AA''),
        (''number'', JStr ''100''),
        (''duration'', JStr ''PT6H30M'')]"

definition sparse_offer :: json where
  "sparse_offer =
     JDict
       [(''id'', JStr ''1''),
        (''itineraries'',
           JList [JDict [(''segments'', JList [segment_no_terminal, JDict []])], JDict []])]"

text \<open>
  An offer with an id and a price total and no itinerary; an offer without price; and
  offers in which a field is present and holds a value of another type than the code
  reads: \<^verbatim>\<open>itineraries\<close> that is \<^verbatim>\<open>None\<close>, a \<^verbatim>\<open>price\<close> that is \<^verbatim>\<open>None\<close>,
  an \<^verbatim>\<open>aircraft\<close> that is a string.
\<close>

definition priced_offer :: "string \<Rightarrow> json \<Rightarrow> json" where
  "priced_offer offer_id price_total =
     JDict
       [(''id'', JStr offer_id),
        (''price'', JDict [(''total'', price_total), (''currency'', JStr ''USD'')]),
        (''itineraries'', JList [])]"


text \<open>
  The totals \<^verbatim>\<open>["250.00","99.99","99.99","500.00"]\<close> of the specification, a list with
  the unparseable total \<^verbatim>\<open>"N/A"\<close>, a list with an offer that has no price, and two
  offers in ascending and in descending price order.
\<close>

definition offer_null_itineraries :: json where
  "offer_null_itineraries =
     JDict
       [(''id'', JStr ''N''),
        (''price'', JDict [(''total'', JStr ''1''), (''currency'', JStr ''USD'')]),
        (''itineraries'', JNull)]"

definition offer_null_price_no_itineraries :: json where
  "offer_null_price_no_itineraries = JDict [(''price'', JNull), (''itineraries'', JList [])]"

definition segment_aircraft_text :: json where
  "segment_aircraft_text =
     JDict [(''departure'', JDict [(''iataCode'', JStr ''JFK'')]), (''aircraft'', JStr ''320'')]"

definition offer_aircraft_text :: json where
  "offer_aircraft_text =
     JDict [(''itineraries'', JList [JDict [(''segments'', JList [segment_aircraft_text])]])]"

definition four_offers :: "json list" where
  "four_offers =
     [priced_offer ''A'' (JStr ''250.00''), priced_offer ''B'' (JStr ''99.99''),
      priced_offer ''C'' (JStr ''99.99''), priced_offer ''D'' (JStr ''500.00'')]"





section \<open>Basic facts\<close>

lemma bnd_Inl [simp]: "bnd (Inl e) f = Inl e"
  by (simp add: bnd_def)

lemma bnd_Inr [simp]: "bnd (Inr v) f = f v"
  by (simp add: bnd_def)

lemma bnd_eq_Inr: "bnd m f = Inr y \<longleftrightarrow> (\<exists>v. m = Inr v \<and> f v = Inr y)"
  by (cases m) simp_all

section \<open>The normalizer returns the ParsedOffer of the specification\<close>

lemma py_get_eq_Inr: "py_get obj k d = Inr v \<Longrightarrow> is_dict obj"
  by (cases obj) (simp_all add: py_get_def is_dict_def)

lemma py_get_JNull: "is_dict obj \<Longrightarrow> py_get obj k JNull = Inr (field obj k)"
  by (cases obj) (simp_all add: py_get_def is_dict_def field_def)

lemma get2_shape:
  "is_dict obj \<Longrightarrow> dict_or_absent obj k1 \<Longrightarrow> get2 obj k1 k2 = Inr (field (field obj k1) k2)"
  by (cases obj)
     (auto simp: get2_def py_get_def is_dict_def dict_or_absent_def has_key_def field_def
           split: option.splits json.splits)

lemma get2_Inr:
  "get2 obj k1 k2 = Inr v \<Longrightarrow> is_dict obj \<and> dict_or_absent obj k1 \<and> v = field (field obj k1) k2"
  by (cases obj)
     (auto simp: get2_def py_get_def is_dict_def dict_or_absent_def has_key_def field_def
           bnd_eq_Inr split: option.splits json.splits)

lemma parse_segment_shape:
  "segment_shape seg \<Longrightarrow> parse_segment seg = Inr (normalized_segment seg)"
  by (simp add: segment_shape_def parse_segment_def get2_shape py_get_JNull
        normalized_segment_def normalized_endpoint_def)

lemma parse_segment_Inr:
  assumes "parse_segment seg = Inr out"
  shows "segment_shape seg \<and> out = normalized_segment seg"
proof -
  from assms obtain a where a: "get2 seg ''departure'' ''iataCode'' = Inr a"
    by (auto simp: parse_segment_def bnd_eq_Inr)
  from assms obtain b where b: "get2 seg ''arrival'' ''iataCode'' = Inr b"
    by (auto simp: parse_segment_def bnd_eq_Inr)
  from assms obtain c where c: "get2 seg ''aircraft'' ''code'' = Inr c"
    by (auto simp: parse_segment_def bnd_eq_Inr)
  from a b c have sh: "segment_shape seg"
    by (auto simp: segment_shape_def dest: get2_Inr)
  with assms show ?thesis
    by (simp add: parse_segment_shape)
qed

lemma for_each_Inr_all2:
  "for_each f xs = Inr ys \<Longrightarrow> list_all2 (\<lambda>x y. f x = Inr y) xs ys"
  by (induction xs arbitrary: ys) (auto simp: bnd_eq_Inr)

lemma for_each_map:
  "list_all (\<lambda>x. f x = Inr (g x)) xs \<Longrightarrow> for_each f xs = Inr (map g xs)"
  by (induction xs) auto

lemma for_each_Inr_map:
  "for_each f xs = Inr ys \<Longrightarrow> (\<And>x y. f x = Inr y \<Longrightarrow> P x \<and> y = g x) \<Longrightarrow>
   list_all P xs \<and> ys = map g xs"
  by (induction xs arbitrary: ys) (auto simp: bnd_eq_Inr)

lemma walk_shape:
  "is_dict obj \<Longrightarrow> list_or_absent obj k \<Longrightarrow>
   \<exists>v. py_get obj k (JList []) = Inr v \<and> py_iter v = Inr (items obj k)"
  by (cases obj)
     (auto simp: py_get_def py_iter_def is_dict_def list_or_absent_def has_key_def field_def
           items_def split: option.splits json.splits)

lemma walk_Inr:
  assumes g: "py_get obj k (JList []) = Inr v" and i: "py_iter v = Inr xs"
    and d: "list_all is_dict xs"
  shows "xs = items obj k"
proof (cases obj)
  case (JDict kvs)
  show ?thesis
  proof (cases v)
    case (JList zs)
    with g i JDict show ?thesis
      by (auto simp: py_get_def py_iter_def items_def field_def split: option.splits)
  next
    case (JDict ws)
    with i d have "xs = []"
      by (cases ws) (auto simp: py_iter_def is_dict_def)
    with g \<open>obj = JDict kvs\<close> JDict show ?thesis
      by (auto simp: py_get_def items_def field_def split: option.splits)
  next
    case (JStr w)
    with i d have "xs = []"
      by (cases w) (auto simp: py_iter_def is_dict_def)
    with g \<open>obj = JDict kvs\<close> JStr show ?thesis
      by (auto simp: py_get_def items_def field_def split: option.splits)
  qed (use i in \<open>simp_all add: py_iter_def\<close>)
qed (use g in \<open>simp_all add: py_get_def\<close>)

lemma segment_shape_is_dict: "segment_shape seg \<Longrightarrow> is_dict seg"
  by (simp add: segment_shape_def)

lemma parse_itinerary_shape:
  assumes "itinerary_shape it"
  shows "parse_itinerary it = Inr (normalized_itinerary it)"
proof -
  from assms have d: "is_dict it" and l: "list_or_absent it ''segments''"
    and s: "list_all segment_shape (items it ''segments'')"
    by (simp_all add: itinerary_shape_def)
  from walk_shape [OF d l] obtain v where
    v: "py_get it ''segments'' (JList []) = Inr v" "py_iter v = Inr (items it ''segments'')"
    by blast
  from s have "list_all (\<lambda>x. parse_segment x = Inr (normalized_segment x)) (items it ''segments'')"
    by (simp add: list_all_iff parse_segment_shape)
  then have "for_each parse_segment (items it ''segments'')
               = Inr (map normalized_segment (items it ''segments''))"
    by (rule for_each_map)
  with v d show ?thesis
    by (simp add: parse_itinerary_def py_get_JNull normalized_itinerary_def)
qed

lemma parse_itinerary_Inr:
  assumes "parse_itinerary it = Inr out"
  shows "is_dict it \<and> out = normalized_itinerary it
         \<and> for_each parse_segment (items it ''segments'')
             = Inr (map normalized_segment (items it ''segments''))"
proof -
  from assms obtain v xs ys dur where
    v: "py_get it ''segments'' (JList []) = Inr v" and i: "py_iter v = Inr xs"
    and f: "for_each parse_segment xs = Inr ys"
    and u: "py_get it ''duration'' JNull = Inr dur"
    and out: "out = JDict [(''duration'', dur), (''segments'', JList ys)]"
    by (auto simp: parse_itinerary_def bnd_eq_Inr)
  from u have d: "is_dict it" by (rule py_get_eq_Inr)
  from f have "list_all segment_shape xs \<and> ys = map normalized_segment xs"
    by (rule for_each_Inr_map) (rule parse_segment_Inr)
  then have sh: "list_all segment_shape xs" and ys: "ys = map normalized_segment xs"
    by simp_all
  from sh have "list_all is_dict xs"
    by (simp add: list_all_iff segment_shape_is_dict)
  with v i have xs: "xs = items it ''segments''" by (rule walk_Inr)
  from u d have "dur = field it ''duration''" by (simp add: py_get_JNull)
  with out ys xs f d show ?thesis
    by (simp add: normalized_itinerary_def)
qed

lemma parse_flight_offer_shape:
  assumes "offer_shape offer"
  shows "parse_flight_offer offer = Inr (normalized_offer offer)"
proof -
  from assms have d: "is_dict offer" and p: "dict_or_absent offer ''price''"
    and l: "list_or_absent offer ''itineraries''"
    and s: "list_all itinerary_shape (items offer ''itineraries'')"
    by (simp_all add: offer_shape_def)
  from walk_shape [OF d l] obtain v where
    v: "py_get offer ''itineraries'' (JList []) = Inr v"
       "py_iter v = Inr (items offer ''itineraries'')"
    by blast
  from s have "list_all (\<lambda>x. parse_itinerary x = Inr (normalized_itinerary x))
                 (items offer ''itineraries'')"
    by (simp add: list_all_iff parse_itinerary_shape)
  then have "for_each parse_itinerary (items offer ''itineraries'')
               = Inr (map normalized_itinerary (items offer ''itineraries''))"
    by (rule for_each_map)
  with v d p show ?thesis
    by (simp add: parse_flight_offer_def py_get_JNull get2_shape normalized_offer_def)
qed

lemma parse_flight_offer_Inr:
  assumes "parse_flight_offer offer = Inr parsed"
  shows "parsed = normalized_offer offer
         \<and> for_each parse_itinerary (items offer ''itineraries'')
             = Inr (map normalized_itinerary (items offer ''itineraries''))"
proof -
  from assms obtain oid total cur v xs ys where
    o: "py_get offer ''id'' JNull = Inr oid"
    and t: "get2 offer ''price'' ''total'' = Inr total"
    and c: "get2 offer ''price'' ''currency'' = Inr cur"
    and v: "py_get offer ''itineraries'' (JList []) = Inr v" and i: "py_iter v = Inr xs"
    and f: "for_each parse_itinerary xs = Inr ys"
    and parsed: "parsed = JDict [(''id'', oid),
                   (''price'', JDict [(''total'', total), (''currency'', cur)]),
                   (''itineraries'', JList ys)]"
    by (auto simp: parse_flight_offer_def bnd_eq_Inr)
  from o have d: "is_dict offer" by (rule py_get_eq_Inr)
  from f have "list_all is_dict xs \<and> ys = map normalized_itinerary xs"
    by (rule for_each_Inr_map) (use parse_itinerary_Inr in blast)
  then have sh: "list_all is_dict xs" and ys: "ys = map normalized_itinerary xs"
    by simp_all
  from v i sh have xs: "xs = items offer ''itineraries''" by (rule walk_Inr)
  from o d have "oid = field offer ''id''" by (simp add: py_get_JNull)
  moreover from t have "total = field (field offer ''price'') ''total''"
    by (simp add: get2_Inr)
  moreover from c have "cur = field (field offer ''price'') ''currency''"
    by (simp add: get2_Inr)
  ultimately show ?thesis
    using parsed ys xs f by (simp add: normalized_offer_def)
qed

lemma field_absent: "\<not> has_key obj k \<Longrightarrow> field obj k = JNull"
  by (cases obj) (auto simp: has_key_def field_def)

lemma items_normalized_offer:
  "items (normalized_offer offer) ''itineraries''
     = map normalized_itinerary (items offer ''itineraries'')"
  by (simp add: normalized_offer_def items_def field_def)

lemma items_normalized_itinerary:
  "items (normalized_itinerary it) ''segments'' = map normalized_segment (items it ''segments'')"
  by (simp add: normalized_itinerary_def items_def field_def)

lemma field_JDict: "field (JDict kvs) k = (case map_of kvs k of None \<Rightarrow> JNull | Some v \<Rightarrow> v)"
  by (simp add: field_def)

lemma dict_keys_JDict: "dict_keys (JDict kvs) = map fst kvs"
  by (simp add: dict_keys_def)

lemma normalized_segment_complete: "segment_complete seg (normalized_segment seg)"
  by (simp add: segment_complete_def normalized_segment_def normalized_endpoint_def
        dict_keys_JDict field_JDict field_absent)

lemma parse_flight_offer_walk:
  assumes "parse_flight_offer offer = Inr parsed"
  shows "list_all2
           (\<lambda>rit pit. parse_itinerary rit = Inr pit
              \<and> list_all2 (\<lambda>rseg pseg. parse_segment rseg = Inr pseg)
                  (items rit ''segments'') (items pit ''segments''))
           (items offer ''itineraries'') (items parsed ''itineraries'')"
proof -
  from parse_flight_offer_Inr [OF assms] have p: "parsed = normalized_offer offer"
    and f: "for_each parse_itinerary (items offer ''itineraries'')
              = Inr (map normalized_itinerary (items offer ''itineraries''))"
    by simp_all
  from f have "list_all2 (\<lambda>x y. parse_itinerary x = Inr y) (items offer ''itineraries'')
                 (map normalized_itinerary (items offer ''itineraries''))"
    by (rule for_each_Inr_all2)
  then have "list_all2
           (\<lambda>rit pit. parse_itinerary rit = Inr pit
              \<and> list_all2 (\<lambda>rseg pseg. parse_segment rseg = Inr pseg)
                  (items rit ''segments'') (items pit ''segments''))
           (items offer ''itineraries'') (map normalized_itinerary (items offer ''itineraries''))"
  proof (rule list_all2_mono)
    fix rit pit
    assume r: "parse_itinerary rit = Inr pit"
    from parse_itinerary_Inr [OF r] have "pit = normalized_itinerary rit"
      and "for_each parse_segment (items rit ''segments'')
             = Inr (map normalized_segment (items rit ''segments''))"
      by simp_all
    then have "list_all2 (\<lambda>rseg pseg. parse_segment rseg = Inr pseg)
                 (items rit ''segments'') (items pit ''segments'')"
      by (simp add: items_normalized_itinerary for_each_Inr_all2)
    with r show "parse_itinerary rit = Inr pit
              \<and> list_all2 (\<lambda>rseg pseg. parse_segment rseg = Inr pseg)
                  (items rit ''segments'') (items pit ''segments'')"
      by simp
  qed
  with p show ?thesis by (simp add: items_normalized_offer)
qed

lemma parse_segment_complete: "parse_segment seg = Inr out \<Longrightarrow> segment_complete seg out"
  using parse_segment_Inr [of seg out] by (simp add: normalized_segment_complete)

lemma sparse_offer_shape: "offer_shape sparse_offer"
  by (simp add: offer_shape_def itinerary_shape_def segment_shape_def sparse_offer_def
        segment_no_terminal_def is_dict_def dict_or_absent_def list_or_absent_def has_key_def
        field_def items_def)

lemma normalized_sparse_offer:
  "normalized_offer sparse_offer =
     JDict
       [(''id'', JStr ''1''),
        (''price'', JDict [(''total'', JNull), (''currency'', JNull)]),
        (''itineraries'',
           JList
             [JDict
                [(''duration'', JNull),
                 (''segments'',
                    JList
                      [JDict
                         [(''departure'', JDict [(''airport'', JStr ''JFK''),
                                                 (''time'', JStr ''2026-03-01T08:00:00''),
                                                 (''terminal'', JNull)]),
                          (''arrival'', JDict [(''airport'', JStr ''LAX''),
                                               (''time'', JStr ''2026-03-01T11:30:00''),
                                               (''terminal'', JStr ''4'')]),
                          (''carrier'', JStr ''AA''),
                          (''flight_number'', JStr ''100''),
                          (''aircraft'', JNull),
                          (''duration'', JStr ''PT6H30M'')],
                       JDict
                         [(''departure'', JDict [(''airport'', JNull), (''time'', JNull),
                                                 (''terminal'', JNull)]),
                          (''arrival'', JDict [(''airport'', JNull), (''time'', JNull),
                                               (''terminal'', JNull)]),
                          (''carrier'', JNull),
                          (''flight_number'', JNull),
                          (''aircraft'', JNull),
                          (''duration'', JNull)]])],
              JDict [(''duration'', JNull), (''segments'', JList [])]])]"
  by (simp add: normalized_offer_def normalized_itinerary_def normalized_segment_def
        normalized_endpoint_def sparse_offer_def segment_no_terminal_def field_def items_def)

section \<open>Empty results and failed calls\<close>

lemma search_flights_ResponseError:
  "api (request_params req) = ResponseError \<Longrightarrow> search_flights api req = Inr (JList [])"
  by (simp add: search_flights_def)

lemma search_flights_falsy:
  "api (request_params req) = Response data \<Longrightarrow> \<not> py_truthy data \<Longrightarrow>
   search_flights api req = Inr data"
  by (simp add: search_flights_def)

lemma compare_flights_falsy:
  "api (request_params req) = Response data \<Longrightarrow> \<not> py_truthy data \<Longrightarrow>
   compare_flights rt api req = Inr []"
  by (simp add: compare_flights_def search_flights_falsy)

lemma compare_flights_ResponseError:
  "api (request_params req) = ResponseError \<Longrightarrow> compare_flights rt api req = Inr []"
  by (simp add: compare_flights_def search_flights_ResponseError py_truthy_def)

lemma priced_offer_shape: "offer_shape (priced_offer i t)"
  by (simp add: offer_shape_def priced_offer_def is_dict_def dict_or_absent_def
        list_or_absent_def has_key_def field_def items_def)

lemma normalized_priced_offer: "normalized_offer (priced_offer i t) = priced_offer i t"
  by (simp add: normalized_offer_def priced_offer_def field_def items_def)

lemma segment_no_terminal_shape: "segment_shape segment_no_terminal"
  by (simp add: segment_shape_def segment_no_terminal_def is_dict_def dict_or_absent_def
        has_key_def field_def)

section \<open>Sorting by price: the stable sort of the keys\<close>

lemma float_lt_rank:
  "a \<noteq> NaN \<Longrightarrow> b \<noteq> NaN \<Longrightarrow> float_lt a b \<longleftrightarrow> float_rank a < float_rank b"
  by (cases a; cases b) (simp_all add: float_rank_def)

lemma float_le_rank:
  "a \<noteq> NaN \<Longrightarrow> b \<noteq> NaN \<Longrightarrow> float_le a b \<longleftrightarrow> float_rank a \<le> float_rank b"
  by (cases a; cases b) (auto simp: float_rank_def)

lemma float_rank_inj: "float_rank a = float_rank b \<longleftrightarrow> a = b"
  by (cases a; cases b) (simp_all add: float_rank_def)

lemma mset_insort_lt: "mset (insort_lt x ys) = add_mset x (mset ys)"
  by (induction ys) simp_all

lemma mset_insertion_sort: "mset (insertion_sort kxs) = mset kxs"
  by (induction kxs) (simp_all add: insertion_sort_def mset_insort_lt)

lemma mset_py_sort: "mset (py_sort rt kxs) = mset kxs"
  by (simp add: py_sort_def mset_insertion_sort)

lemma insort_lt_insort_key:
  "fst x \<noteq> NaN \<Longrightarrow> \<forall>y\<in>set ys. fst y \<noteq> NaN \<Longrightarrow>
   insort_lt x ys = insort_key (\<lambda>kx. float_rank (fst kx)) x ys"
  by (induction ys) (auto simp: float_lt_rank)

lemma set_insertion_sort: "set (insertion_sort kxs) = set kxs"
  using mset_insertion_sort [of kxs] by (metis set_mset_mset)

lemma insertion_sort_sort_key:
  "\<forall>y\<in>set kxs. fst y \<noteq> NaN \<Longrightarrow>
   insertion_sort kxs = sort_key (\<lambda>kx. float_rank (fst kx)) kxs"
proof (induction kxs)
  case Nil
  show ?case by (simp add: insertion_sort_def)
next
  case (Cons x kxs)
  then have ih: "insertion_sort kxs = sort_key (\<lambda>kx. float_rank (fst kx)) kxs" by simp
  have "insertion_sort (x # kxs) = insort_lt x (insertion_sort kxs)"
    by (simp add: insertion_sort_def)
  also have "\<dots> = insort_key (\<lambda>kx. float_rank (fst kx)) x (insertion_sort kxs)"
    using Cons.prems by (intro insort_lt_insort_key) (simp_all add: set_insertion_sort)
  finally show ?case by (simp add: ih)
qed

lemma py_sort_sort_key:
  "\<forall>y\<in>set kxs. fst y \<noteq> NaN \<Longrightarrow> py_sort rt kxs = sort_key (\<lambda>kx. float_rank (fst kx)) kxs"
  by (simp add: py_sort_def list_all_iff insertion_sort_sort_key)

lemma insort_key_decorated:
  "insort_key (\<lambda>kx. r (fst kx)) (k x, x) (map (\<lambda>y. (k y, y)) ys)
     = map (\<lambda>y. (k y, y)) (insort_key (\<lambda>y. r (k y)) x ys)"
  by (induction ys) simp_all

lemma sort_key_decorated:
  "sort_key (\<lambda>kx. r (fst kx)) (map (\<lambda>y. (k y, y)) ys)
     = map (\<lambda>y. (k y, y)) (sort_key (\<lambda>y. r (k y)) ys)"
  by (induction ys) (simp_all add: insort_key_decorated)

lemma for_each_keys:
  "for_each (price_key rt) xs = Inr keys \<Longrightarrow> zip keys xs = map (\<lambda>x. (price_of rt x, x)) xs"
  by (induction xs arbitrary: keys) (auto simp: bnd_eq_Inr price_of_def)

lemma for_each_all_Inr:
  "\<forall>x\<in>set xs. \<exists>y. f x = Inr y \<Longrightarrow> \<exists>ys. for_each f xs = Inr ys"
  by (induction xs) auto


lemma sort_by_price_length:
  "sort_by_price rt xs = Inr ys \<Longrightarrow> mset ys = mset xs"
proof -
  assume "sort_by_price rt xs = Inr ys"
  then obtain keys where k: "for_each (price_key rt) xs = Inr keys"
    and ys: "ys = map snd (py_sort rt (zip keys xs))"
    by (auto simp: sort_by_price_def bnd_eq_Inr)
  have "mset ys = image_mset snd (mset (py_sort rt (zip keys xs)))"
    by (simp add: ys)
  also have "\<dots> = image_mset snd (mset (map (\<lambda>x. (price_of rt x, x)) xs))"
    by (simp add: mset_py_sort for_each_keys [OF k])
  also have "\<dots> = mset xs"
    by (simp add: image_mset.compositionality comp_def)
  finally show ?thesis .
qed

lemma has_price_of: "has_price rt x \<Longrightarrow> price_key rt x = Inr (price_of rt x) \<and> price_of rt x \<noteq> NaN"
  by (auto simp: has_price_def price_of_def split: sum.splits)

lemma sort_by_price_sort_key:
  assumes "\<forall>x\<in>set xs. has_price rt x"
  shows "sort_by_price rt xs = Inr (sort_key (\<lambda>x. float_rank (price_of rt x)) xs)"
proof -
  from assms have "\<forall>x\<in>set xs. \<exists>y. price_key rt x = Inr y"
    by (auto dest: has_price_of)
  then obtain keys where k: "for_each (price_key rt) xs = Inr keys"
    using for_each_all_Inr by blast
  have z: "zip keys xs = map (\<lambda>x. (price_of rt x, x)) xs"
    using k by (rule for_each_keys)
  have "\<forall>y\<in>set (zip keys xs). fst y \<noteq> NaN"
    using assms by (auto simp: z dest: has_price_of)
  then have "py_sort rt (zip keys xs) = sort_key (\<lambda>kx. float_rank (fst kx)) (zip keys xs)"
    by (rule py_sort_sort_key)
  also have "\<dots> = map (\<lambda>y. (price_of rt y, y)) (sort_key (\<lambda>x. float_rank (price_of rt x)) xs)"
    by (simp add: z sort_key_decorated)
  finally show ?thesis
    by (simp add: sort_by_price_def k comp_def)
qed

lemma has_price_not_NaN: "has_price rt x \<Longrightarrow> price_of rt x \<noteq> NaN"
  by (simp add: has_price_of)



lemma sort_by_price_properties:
  assumes h: "\<forall>x\<in>set xs. has_price rt x"
  shows "\<exists>ys. sort_by_price rt xs = Inr ys
           \<and> mset ys = mset xs
           \<and> sorted_wrt (\<lambda>a b. float_le (price_of rt a) (price_of rt b)) ys
           \<and> (\<forall>k. filter (\<lambda>x. price_of rt x = k) ys = filter (\<lambda>x. price_of rt x = k) xs)"
proof -
  let ?r = "\<lambda>x. float_rank (price_of rt x)"
  let ?ys = "sort_key ?r xs"
  have s: "sort_by_price rt xs = Inr ?ys"
    using h by (rule sort_by_price_sort_key)
  have n: "\<forall>x\<in>set ?ys. price_of rt x \<noteq> NaN"
    using h by (auto dest: has_price_of)
  have "sorted (map ?r ?ys)" by (rule sorted_sort_key)
  then have "sorted_wrt (\<lambda>a b. ?r a \<le> ?r b) ?ys" by (simp add: sorted_map)
  then have o: "sorted_wrt (\<lambda>a b. float_le (price_of rt a) (price_of rt b)) ?ys"
    by (rule sorted_wrt_mono_rel [rotated]) (use n in \<open>simp add: float_le_rank\<close>)
  have "filter (\<lambda>x. price_of rt x = k) ?ys = filter (\<lambda>x. price_of rt x = k) xs" for k
    using sort_key_stable [of ?r "float_rank k" xs] by (simp add: float_rank_inj)
  with s o show ?thesis by simp
qed



text \<open>
  The result of the sort step is the only list with these three properties: whatever
  stable sorting algorithm \<^verbatim>\<open>list.sort\<close> runs, on keys that are numbers it returns
  this list.
\<close>

lemma stable_sort_unique:
  assumes h: "\<forall>x\<in>set xs. has_price rt x"
    and m: "mset ys = mset xs"
    and s: "sorted_wrt (\<lambda>x y. float_le (price_of rt x) (price_of rt y)) ys"
    and f: "\<forall>k. filter (\<lambda>x. price_of rt x = k) ys = filter (\<lambda>x. price_of rt x = k) xs"
  shows "sort_by_price rt xs = Inr ys"
proof -
  let ?r = "\<lambda>x. float_rank (price_of rt x)"
  from m have "set ys = set xs" by (metis set_mset_mset)
  with h have hy: "\<forall>x\<in>set ys. has_price rt x" by simp
  from s have "sorted_wrt (\<lambda>x y. ?r x \<le> ?r y) ys"
    by (rule sorted_wrt_mono_rel [rotated]) (use hy in \<open>simp add: float_le_rank has_price_not_NaN\<close>)
  then have o: "sorted (map ?r ys)" by (simp add: sorted_map)
  have "filter (\<lambda>x. ?r k = ?r x) ys = filter (\<lambda>x. ?r k = ?r x) xs" for k
    using f by (simp add: float_rank_inj eq_commute [of "price_of rt k"])
  with m o have "sort_key ?r xs = ys"
    by (intro properties_for_sort_key) simp_all
  with sort_by_price_sort_key [OF h] show ?thesis by simp
qed

lemma sort_by_price_Nil: "sort_by_price rt [] = Inr []"
  by (simp add: sort_by_price_def py_sort_def insertion_sort_def)

section \<open>The pipeline on a list of raw offers\<close>

lemma search_flights_list:
  "api (request_params req) = Response (JList raw) \<Longrightarrow> search_flights api req = Inr (JList raw)"
  by (simp add: search_flights_def py_len_def)

lemma compare_flights_list:
  assumes "api (request_params req) = Response (JList raw)"
  shows "compare_flights rt api req = bnd (for_each parse_flight_offer raw) (sort_by_price rt)"
proof (cases raw)
  case Nil
  with assms show ?thesis
    by (simp add: compare_flights_def search_flights_list py_truthy_def sort_by_price_Nil)
next
  case (Cons a as)
  with assms show ?thesis
    by (simp add: compare_flights_def search_flights_list py_truthy_def py_iter_def)
qed

lemma price_key_normalized: "price_key rt (normalized_offer offer) = py_float rt (raw_total offer)"
  by (simp add: price_key_def normalized_offer_def py_subscript_def raw_total_def)

lemma for_each_parse_shape:
  "list_all offer_shape raw \<Longrightarrow> for_each parse_flight_offer raw = Inr (map normalized_offer raw)"
  by (rule for_each_map) (simp add: list_all_iff parse_flight_offer_shape)






lemma price_key_priced_offer: "price_key rt (priced_offer i t) = py_float rt t"
  by (simp add: price_key_def priced_offer_def py_subscript_def)

lemma raw_total_priced_offer: "raw_total (priced_offer i t) = t"
  by (simp add: raw_total_def priced_offer_def field_def)

lemma four_offers_parsed: "for_each parse_flight_offer four_offers = Inr four_offers"
  by (simp add: four_offers_def parse_flight_offer_shape priced_offer_shape normalized_priced_offer)

section \<open>The examples evaluated, and the ranked result\<close>

lemma decimal_float_250: "decimal_float ''250.00'' = Some (Finite 250)"
  by code_simp

lemma decimal_float_500: "decimal_float ''500.00'' = Some (Finite 500)"
  by code_simp

lemma decimal_float_99_99:
  "decimal_float ''99.99'' = Some (Finite (7036170730324623 / 70368744177664))"
  by code_simp


lemma py_float_250: "py_float decimal_runtime (JStr ''250.00'') = Inr (Finite 250)"
  by (simp add: py_float_def decimal_runtime_def decimal_float_250)

lemma py_float_500: "py_float decimal_runtime (JStr ''500.00'') = Inr (Finite 500)"
  by (simp add: py_float_def decimal_runtime_def decimal_float_500)

lemma py_float_99_99:
  "py_float decimal_runtime (JStr ''99.99'') = Inr (Finite (7036170730324623 / 70368744177664))"
  by (simp add: py_float_def decimal_runtime_def decimal_float_99_99)


lemma float_lt_not_NaN: "float_lt a b \<Longrightarrow> a \<noteq> NaN \<and> b \<noteq> NaN"
  by (cases a; cases b) simp_all

lemma four_offers_ranked_any:
  assumes a: "str_float rt ''250.00'' = Some a" and b: "str_float rt ''99.99'' = Some b"
    and c: "str_float rt ''500.00'' = Some c"
    and ba: "float_lt b a" and ac: "float_lt a c"
  shows "sort_by_price rt four_offers =
     Inr [priced_offer ''B'' (JStr ''99.99''), priced_offer ''C'' (JStr ''99.99''),
          priced_offer ''A'' (JStr ''250.00''), priced_offer ''D'' (JStr ''500.00'')]"
proof -
  from ba ac have n: "a \<noteq> NaN" "b \<noteq> NaN" "c \<noteq> NaN"
    by (auto dest: float_lt_not_NaN)
  from ba ac n have r: "float_rank b < float_rank a" "float_rank a < float_rank c"
    by (simp_all add: float_lt_rank)
  from r n have o: "\<not> float_lt b b" "\<not> float_lt c b" "\<not> float_lt c a"
    by (auto simp: float_lt_rank)
  have k: "for_each (price_key rt) four_offers = Inr [a, b, b, c]"
    by (simp add: four_offers_def price_key_priced_offer py_float_def a b c)
  have "insertion_sort
          [(a, priced_offer ''A'' (JStr ''250.00'')), (b, priced_offer ''B'' (JStr ''99.99'')),
           (b, priced_offer ''C'' (JStr ''99.99'')), (c, priced_offer ''D'' (JStr ''500.00''))]
        = [(b, priced_offer ''B'' (JStr ''99.99'')), (b, priced_offer ''C'' (JStr ''99.99'')),
           (a, priced_offer ''A'' (JStr ''250.00'')), (c, priced_offer ''D'' (JStr ''500.00''))]"
    by (simp add: insertion_sort_def o ba)
  moreover have "sort_by_price rt four_offers
                   = Inr (map snd (py_sort rt (zip [a, b, b, c] four_offers)))"
    by (simp add: sort_by_price_def k)
  ultimately show ?thesis
    using n by (simp add: py_sort_def four_offers_def)
qed

lemma api_returning_params: "api_returning raw (request_params req) = Response (JList raw)"
  by (simp add: api_returning_def)

lemma has_price_normalized:
  "has_price rt (normalized_offer offer) = parses_as_number rt (raw_total offer)"
  by (simp add: has_price_def parses_as_number_def price_key_normalized)

lemma compare_flights_ranked:
  assumes a: "api (request_params req) = Response (JList raw)"
    and s: "list_all offer_shape raw"
    and n: "list_all (\<lambda>offer. parses_as_number rt (raw_total offer)) raw"
  shows "\<exists>ranked. compare_flights rt api req = Inr ranked
           \<and> mset ranked = mset (map normalized_offer raw)
           \<and> sorted_wrt (\<lambda>x y. float_le (price_of rt x) (price_of rt y)) ranked
           \<and> (\<forall>k. filter (\<lambda>x. price_of rt x = k) ranked
                   = filter (\<lambda>x. price_of rt x = k) (map normalized_offer raw))"
proof -
  from s have f: "for_each parse_flight_offer raw = Inr (map normalized_offer raw)"
    by (rule for_each_parse_shape)
  from n have "\<forall>x\<in>set (map normalized_offer raw). has_price rt x"
    by (auto simp: list_all_iff has_price_normalized)
  from sort_by_price_properties [OF this] a f show ?thesis
    by (simp add: compare_flights_list)
qed

lemma parseable_Inr: "parseable rt t \<Longrightarrow> \<exists>f. py_float rt t = Inr f"
  by (cases "py_float rt t") (simp_all add: parseable_def)

lemma compare_flights_all:
  assumes a: "api (request_params req) = Response (JList raw)"
    and s: "list_all offer_shape raw"
    and n: "list_all (\<lambda>offer. parseable rt (raw_total offer)) raw"
  shows "\<exists>ranked. compare_flights rt api req = Inr ranked
           \<and> length ranked = length raw
           \<and> mset ranked = mset (map normalized_offer raw)"
proof -
  from s have f: "for_each parse_flight_offer raw = Inr (map normalized_offer raw)"
    by (rule for_each_parse_shape)
  from n have "\<forall>x\<in>set (map normalized_offer raw). \<exists>y. price_key rt x = Inr y"
    by (auto simp: list_all_iff price_key_normalized dest: parseable_Inr)
  then obtain keys where "for_each (price_key rt) (map normalized_offer raw) = Inr keys"
    using for_each_all_Inr [of "map normalized_offer raw" "price_key rt"] by blast
  then obtain ranked where r: "sort_by_price rt (map normalized_offer raw) = Inr ranked"
    by (simp add: sort_by_price_def)
  then have m: "mset ranked = mset (map normalized_offer raw)" by (rule sort_by_price_length)
  then have "size (mset ranked) = size (mset (map normalized_offer raw))" by simp
  then have "length ranked = length raw" by simp
  with a f r m show ?thesis by (simp add: compare_flights_list)
qed

lemma field_id_priced_offer: "field (priced_offer i t) ''id'' = JStr i"
  by (simp add: priced_offer_def field_JDict)

lemma four_offers_compared_any:
  assumes "str_float rt ''250.00'' = Some a" and "str_float rt ''99.99'' = Some b"
    and "str_float rt ''500.00'' = Some c" and "float_lt b a" and "float_lt a c"
  shows "compare_flights rt (api_returning four_offers) example_request =
     Inr [priced_offer ''B'' (JStr ''99.99''), priced_offer ''C'' (JStr ''99.99''),
          priced_offer ''A'' (JStr ''250.00''), priced_offer ''D'' (JStr ''500.00'')]"
  using compare_flights_list [of "api_returning four_offers" example_request four_offers rt]
    four_offers_ranked_any [OF assms]
  by (simp add: api_returning_params four_offers_parsed)

lemma four_offers_numbers: "list_all (\<lambda>offer. parses_as_number decimal_runtime (raw_total offer)) four_offers"
  by (simp add: four_offers_def raw_total_priced_offer parses_as_number_def py_float_250
        py_float_500 py_float_99_99)

lemma four_offers_shape: "list_all offer_shape four_offers"
  by (simp add: four_offers_def priced_offer_shape)

lemma four_offers_parseable: "list_all (\<lambda>offer. parseable decimal_runtime (raw_total offer)) four_offers"
  by (simp add: four_offers_def raw_total_priced_offer parseable_def py_float_250
        py_float_500 py_float_99_99)







lemma decimal_float_1: "decimal_float ''1'' = Some (Finite 1)"
  by code_simp

lemma parse_offer_null_itineraries: "parse_flight_offer offer_null_itineraries = Inl TypeError"
  by (simp add: parse_flight_offer_def offer_null_itineraries_def get2_def py_get_def py_iter_def)

lemma raw_total_offer_null_itineraries: "raw_total offer_null_itineraries = JStr ''1''"
  by (simp add: raw_total_def offer_null_itineraries_def field_def)

lemma py_float_1: "py_float decimal_runtime (JStr ''1'') = Inr (Finite 1)"
  by (simp add: py_float_def decimal_runtime_def decimal_float_1)

section \<open>The claims\<close>

text \<open>
  C1, as the code has it. When the capability reports zero raw offers (its data is empty
  or absent, that is falsy) \<^verbatim>\<open>compare_flights\<close> returns the empty list; when the
  capability raises \<^verbatim>\<open>ResponseError\<close> the handler in \<^verbatim>\<open>search_flights\<close> returns
  the empty list too, and \<^verbatim>\<open>compare_flights\<close> returns the same empty list.
\<close>

theorem compare_flights_no_offers_or_failure:
  "(api (request_params req) = Response data \<and> \<not> py_truthy data
      \<longrightarrow> compare_flights rt api req = Inr [])
   \<and> (api (request_params req) = ResponseError \<longrightarrow> compare_flights rt api req = Inr [])"
  by (simp add: compare_flights_falsy compare_flights_ResponseError)

text \<open>
  A capability that finds nothing, and one whose call fails.
\<close>

theorem compare_flights_no_offers_or_failure_witness:
  "api_no_offers (request_params example_request) = Response (JList [])
   \<and> \<not> py_truthy (JList [])
   \<and> compare_flights decimal_runtime api_no_offers example_request = Inr []
   \<and> api_transport_failure (request_params example_request) = ResponseError
   \<and> compare_flights decimal_runtime api_transport_failure example_request = Inr []"
  using compare_flights_no_offers_or_failure
          [of api_no_offers example_request "JList []" decimal_runtime]
        compare_flights_no_offers_or_failure
          [of api_transport_failure example_request JNull decimal_runtime]
  by (simp add: api_no_offers_def api_transport_failure_def py_truthy_def)

text \<open>
  C1, as the claim has it, fails: the outcome for zero offers and the outcome for a
  failed call are the same value, so nothing at the boundary tells them apart.
\<close>

theorem compare_flights_failure_indistinguishable:
  "compare_flights decimal_runtime api_no_offers example_request
     = compare_flights decimal_runtime api_transport_failure example_request"
  by (simp add: compare_flights_def search_flights_def api_no_offers_def
        api_transport_failure_def py_truthy_def)



text \<open>
  C3, as the code has it. For every raw offer of the shape \<open>offer_shape\<close> (each nested
  level that is present is a mapping, or a list of mappings, where the code reads one;
  any field may be missing at any level) \<^verbatim>\<open>parse_flight_offer\<close> returns without
  raising, and what it returns is the ParsedOffer in which every absent field is
  \<^verbatim>\<open>None\<close>.
\<close>

theorem parse_flight_offer_total_on_shaped:
  "offer_shape offer \<Longrightarrow>
   parse_flight_offer offer = Inr (normalized_offer offer)
   \<and> (\<forall>obj key. \<not> has_key obj key \<longrightarrow> field obj key = JNull)"
  by (simp add: parse_flight_offer_shape field_absent)

text \<open>An offer without price, with an empty segment and an empty itinerary, is normalized.\<close>

theorem parse_flight_offer_total_on_shaped_witness:
  "offer_shape sparse_offer
   \<and> \<not> has_key sparse_offer ''price''
   \<and> field sparse_offer ''price'' = JNull
   \<and> parse_flight_offer sparse_offer =
       Inr (JDict
         [(''id'', JStr ''1''),
          (''price'', JDict [(''total'', JNull), (''currency'', JNull)]),
          (''itineraries'',
             JList
               [JDict
                  [(''duration'', JNull),
                   (''segments'',
                      JList
                        [JDict
                           [(''departure'', JDict [(''airport'', JStr ''JFK''),
                                                   (''time'', JStr ''2026-03-01T08:00:00''),
                                                   (''terminal'', JNull)]),
                            (''arrival'', JDict [(''airport'', JStr ''LAX''),
                                                 (''time'', JStr ''2026-03-01T11:30:00''),
                                                 (''terminal'', JStr ''4'')]),
                            (''carrier'', JStr ''AA''),
                            (''flight_number'', JStr ''100''),
                            (''aircraft'', JNull),
                            (''duration'', JStr ''PT6H30M'')],
                         JDict
                           [(''departure'', JDict [(''airport'', JNull), (''time'', JNull),
                                                   (''terminal'', JNull)]),
                            (''arrival'', JDict [(''airport'', JNull), (''time'', JNull),
                                                 (''terminal'', JNull)]),
                            (''carrier'', JNull),
                            (''flight_number'', JNull),
                            (''aircraft'', JNull),
                            (''duration'', JNull)]])],
                JDict [(''duration'', JNull), (''segments'', JList [])]])])"
proof -
  have k: "\<not> has_key sparse_offer ''price''"
    by (simp add: has_key_def sparse_offer_def)
  from parse_flight_offer_total_on_shaped [OF sparse_offer_shape] k
  show ?thesis
    by (simp add: sparse_offer_shape normalized_sparse_offer)
qed

text \<open>
  C3, as the claim has it, fails on a mapping whose \<^verbatim>\<open>price\<close> is present and holds
  \<^verbatim>\<open>None\<close>: \<^verbatim>\<open>offer.get('price', {})\<close> returns \<^verbatim>\<open>None\<close>, not the default, and
  \<^verbatim>\<open>None.get('total')\<close> raises.
\<close>

theorem parse_flight_offer_null_price:
  "parse_flight_offer (JDict [(''price'', JNull)]) = Inl AttributeError"
  by (simp add: parse_flight_offer_def get2_def py_get_def)

text \<open>
  C4, as the code has it. When the capability returns a list of raw offers, each of the
  shape the normalizer reads, whose price totals all parse as numbers (\<^verbatim>\<open>float\<close>
  returns a value other than not-a-number), \<^verbatim>\<open>compare_flights\<close> returns the
  normalized offers, each exactly once, in ascending order of the float value of the
  price total, and the offers of equal float value keep their relative order. The totals
  \<^verbatim>\<open>["250.00","99.99","99.99","500.00"]\<close> of the offers A, B, C, D come out in the
  order B, C, A, D, on every runtime whose \<^verbatim>\<open>float\<close> puts the three values in
  their order.
\<close>

theorem compare_flights_sorted_by_price:
  "(api (request_params req) = Response (JList raw)
      \<and> list_all offer_shape raw
      \<and> list_all (\<lambda>offer. parses_as_number rt (raw_total offer)) raw
    \<longrightarrow> (\<exists>ranked. compare_flights rt api req = Inr ranked
           \<and> mset ranked = mset (map normalized_offer raw)
           \<and> sorted_wrt (\<lambda>x y. float_le (price_of rt x) (price_of rt y)) ranked
           \<and> (\<forall>k. filter (\<lambda>x. price_of rt x = k) ranked
                   = filter (\<lambda>x. price_of rt x = k) (map normalized_offer raw))))
   \<and> map raw_total four_offers = [JStr ''250.00'', JStr ''99.99'', JStr ''99.99'', JStr ''500.00'']
   \<and> (str_float rt ''250.00'' = Some a \<and> str_float rt ''99.99'' = Some b
        \<and> str_float rt ''500.00'' = Some c \<and> float_lt b a \<and> float_lt a c
      \<longrightarrow> compare_flights rt (api_returning four_offers) example_request =
           Inr [priced_offer ''B'' (JStr ''99.99''), priced_offer ''C'' (JStr ''99.99''),
                priced_offer ''A'' (JStr ''250.00''), priced_offer ''D'' (JStr ''500.00'')])"
proof (intro conjI impI)
  assume "api (request_params req) = Response (JList raw)
      \<and> list_all offer_shape raw
      \<and> list_all (\<lambda>offer. parses_as_number rt (raw_total offer)) raw"
  then show "\<exists>ranked. compare_flights rt api req = Inr ranked
           \<and> mset ranked = mset (map normalized_offer raw)
           \<and> sorted_wrt (\<lambda>x y. float_le (price_of rt x) (price_of rt y)) ranked
           \<and> (\<forall>k. filter (\<lambda>x. price_of rt x = k) ranked
                   = filter (\<lambda>x. price_of rt x = k) (map normalized_offer raw))"
    using compare_flights_ranked [of api req raw rt] by blast
next
  show "map raw_total four_offers
          = [JStr ''250.00'', JStr ''99.99'', JStr ''99.99'', JStr ''500.00'']"
    by (simp add: four_offers_def raw_total_priced_offer)
next
  assume "str_float rt ''250.00'' = Some a \<and> str_float rt ''99.99'' = Some b
        \<and> str_float rt ''500.00'' = Some c \<and> float_lt b a \<and> float_lt a c"
  then show "compare_flights rt (api_returning four_offers) example_request =
       Inr [priced_offer ''B'' (JStr ''99.99''), priced_offer ''C'' (JStr ''99.99''),
            priced_offer ''A'' (JStr ''250.00''), priced_offer ''D'' (JStr ''500.00'')]"
    using four_offers_compared_any [of rt a b c] by blast
qed

text \<open>
  The four offers of the specification.
\<close>

theorem compare_flights_sorted_by_price_witness:
  "api_returning four_offers (request_params example_request) = Response (JList four_offers)
   \<and> list_all offer_shape four_offers
   \<and> list_all (\<lambda>offer. parses_as_number decimal_runtime (raw_total offer)) four_offers
   \<and> (\<exists>ranked. compare_flights decimal_runtime (api_returning four_offers) example_request = Inr ranked
         \<and> mset ranked = mset (map normalized_offer four_offers)
         \<and> sorted_wrt (\<lambda>x y. float_le (price_of decimal_runtime x) (price_of decimal_runtime y)) ranked
         \<and> map raw_total ranked = [JStr ''99.99'', JStr ''99.99'', JStr ''250.00'', JStr ''500.00'']
         \<and> map (\<lambda>x. field x ''id'') ranked = [JStr ''B'', JStr ''C'', JStr ''A'', JStr ''D''])"
proof -
  have f: "str_float decimal_runtime ''250.00'' = Some (Finite 250)"
    "str_float decimal_runtime ''99.99'' = Some (Finite (7036170730324623 / 70368744177664))"
    "str_float decimal_runtime ''500.00'' = Some (Finite 500)"
    by (simp_all add: decimal_runtime_def decimal_float_250 decimal_float_99_99 decimal_float_500)
  have l: "float_lt (Finite (7036170730324623 / 70368744177664)) (Finite 250)"
    "float_lt (Finite 250) (Finite 500)"
    by simp_all
  note t = compare_flights_sorted_by_price
         [of "api_returning four_offers" example_request four_offers decimal_runtime
             "Finite 250" "Finite (7036170730324623 / 70368744177664)" "Finite 500"]
  from t api_returning_params four_offers_shape four_offers_numbers
  obtain ranked where r: "compare_flights decimal_runtime (api_returning four_offers) example_request = Inr ranked"
    and m: "mset ranked = mset (map normalized_offer four_offers)"
    and s: "sorted_wrt (\<lambda>x y. float_le (price_of decimal_runtime x) (price_of decimal_runtime y)) ranked"
    by auto
  from t f l have "compare_flights decimal_runtime (api_returning four_offers) example_request =
       Inr [priced_offer ''B'' (JStr ''99.99''), priced_offer ''C'' (JStr ''99.99''),
            priced_offer ''A'' (JStr ''250.00''), priced_offer ''D'' (JStr ''500.00'')]"
    by blast
  with r have e: "ranked = [priced_offer ''B'' (JStr ''99.99''), priced_offer ''C'' (JStr ''99.99''),
            priced_offer ''A'' (JStr ''250.00''), priced_offer ''D'' (JStr ''500.00'')]"
    by simp
  have "map raw_total ranked = [JStr ''99.99'', JStr ''99.99'', JStr ''250.00'', JStr ''500.00'']"
    and "map (\<lambda>x. field x ''id'') ranked = [JStr ''B'', JStr ''C'', JStr ''A'', JStr ''D'']"
    by (simp_all add: e raw_total_priced_offer field_id_priced_offer)
  with r m s have "\<exists>ranked. compare_flights decimal_runtime (api_returning four_offers) example_request = Inr ranked
         \<and> mset ranked = mset (map normalized_offer four_offers)
         \<and> sorted_wrt (\<lambda>x y. float_le (price_of decimal_runtime x) (price_of decimal_runtime y)) ranked
         \<and> map raw_total ranked = [JStr ''99.99'', JStr ''99.99'', JStr ''250.00'', JStr ''500.00'']
         \<and> map (\<lambda>x. field x ''id'') ranked = [JStr ''B'', JStr ''C'', JStr ''A'', JStr ''D'']"
    by (intro exI [of _ ranked]) simp
  then show ?thesis
    using four_offers_shape four_offers_numbers by (simp add: api_returning_params)
qed

text \<open>
  C4, as the claim has it, fails: the price totals of both offers parse as numbers, but
  the \<^verbatim>\<open>itineraries\<close> of the second is present and holds \<^verbatim>\<open>None\<close>, the loop of
  \<^verbatim>\<open>parse_flight_offer\<close> over it raises \<^verbatim>\<open>TypeError\<close>, and nothing is sorted.
\<close>

theorem compare_flights_null_itineraries_raises:
  "list_all (\<lambda>offer. parses_as_number decimal_runtime (raw_total offer))
     [priced_offer ''A'' (JStr ''250.00''), offer_null_itineraries]
   \<and> compare_flights decimal_runtime
         (api_returning [priced_offer ''A'' (JStr ''250.00''), offer_null_itineraries])
         example_request = Inl TypeError"
proof -
  have "compare_flights decimal_runtime
         (api_returning [priced_offer ''A'' (JStr ''250.00''), offer_null_itineraries])
         example_request
        = bnd (for_each parse_flight_offer
                 [priced_offer ''A'' (JStr ''250.00''), offer_null_itineraries])
            (sort_by_price decimal_runtime)"
    by (rule compare_flights_list) (rule api_returning_params)
  then show ?thesis
    by (simp add: parse_flight_offer_shape priced_offer_shape parse_offer_null_itineraries
          parses_as_number_def raw_total_priced_offer raw_total_offer_null_itineraries
          py_float_250 py_float_1)
qed

text \<open>
  C5, as the code has it. Whenever \<^verbatim>\<open>parse_flight_offer\<close> returns a ParsedOffer, the output has as many
  itineraries as the input, the itinerary at each position is the normalized input
  itinerary at that position and has as many segments, and the segment at each position is
  the normalized input segment at that position: nothing is reordered, dropped or
  merged. An offer (of the shape the code reads) with zero itineraries yields a
  ParsedOffer with an empty itineraries list, not an error.
\<close>

theorem parse_flight_offer_preserves_counts:
  "(parse_flight_offer offer = Inr parsed \<longrightarrow>
      length (items parsed ''itineraries'') = length (items offer ''itineraries'')
      \<and> list_all2
          (\<lambda>rit pit. parse_itinerary rit = Inr pit
             \<and> length (items pit ''segments'') = length (items rit ''segments'')
             \<and> list_all2 (\<lambda>rseg pseg. parse_segment rseg = Inr pseg)
                 (items rit ''segments'') (items pit ''segments''))
          (items offer ''itineraries'') (items parsed ''itineraries''))
   \<and> (offer_shape offer \<and> items offer ''itineraries'' = [] \<longrightarrow>
        (\<exists>p. parse_flight_offer offer = Inr p \<and> items p ''itineraries'' = []))"
proof (intro conjI impI)
  assume r: "parse_flight_offer offer = Inr parsed"
  from parse_flight_offer_walk [OF r]
  have w: "list_all2
           (\<lambda>rit pit. parse_itinerary rit = Inr pit
              \<and> list_all2 (\<lambda>rseg pseg. parse_segment rseg = Inr pseg)
                  (items rit ''segments'') (items pit ''segments''))
           (items offer ''itineraries'') (items parsed ''itineraries'')" .
  then show "length (items parsed ''itineraries'') = length (items offer ''itineraries'')"
    by (simp add: list_all2_lengthD)
  from w show "list_all2
          (\<lambda>rit pit. parse_itinerary rit = Inr pit
             \<and> length (items pit ''segments'') = length (items rit ''segments'')
             \<and> list_all2 (\<lambda>rseg pseg. parse_segment rseg = Inr pseg)
                 (items rit ''segments'') (items pit ''segments''))
          (items offer ''itineraries'') (items parsed ''itineraries'')"
    by (rule list_all2_mono) (auto dest: list_all2_lengthD)
next
  assume "offer_shape offer \<and> items offer ''itineraries'' = []"
  then show "\<exists>p. parse_flight_offer offer = Inr p \<and> items p ''itineraries'' = []"
    by (simp add: parse_flight_offer_shape items_normalized_offer)
qed

text \<open>Two itineraries with two and zero segments; and an offer with no itinerary.\<close>

theorem parse_flight_offer_preserves_counts_witness:
  "parse_flight_offer sparse_offer = Inr (normalized_offer sparse_offer)
   \<and> length (items sparse_offer ''itineraries'') = 2
   \<and> length (items (normalized_offer sparse_offer) ''itineraries'') = 2
   \<and> map (\<lambda>rit. length (items rit ''segments'')) (items sparse_offer ''itineraries'') = [2, 0]
   \<and> map (\<lambda>pit. length (items pit ''segments''))
        (items (normalized_offer sparse_offer) ''itineraries'') = [2, 0]
   \<and> offer_shape (priced_offer ''B'' (JStr ''99.99''))
   \<and> items (priced_offer ''B'' (JStr ''99.99'')) ''itineraries'' = []
   \<and> (\<exists>p. parse_flight_offer (priced_offer ''B'' (JStr ''99.99'')) = Inr p
          \<and> items p ''itineraries'' = [])"
proof -
  have r: "parse_flight_offer sparse_offer = Inr (normalized_offer sparse_offer)"
    using sparse_offer_shape by (rule parse_flight_offer_shape)
  have i: "items sparse_offer ''itineraries''
             = [JDict [(''segments'', JList [segment_no_terminal, JDict []])], JDict []]"
    by (simp add: sparse_offer_def items_def field_def)
  have s1: "items (JDict [(''segments'', JList [segment_no_terminal, JDict []])]) ''segments''
              = [segment_no_terminal, JDict []]"
    and s2: "items (JDict []) ''segments'' = []"
    by (simp_all add: items_def field_def)
  have e: "items (priced_offer ''B'' (JStr ''99.99'')) ''itineraries'' = []"
    by (simp add: priced_offer_def items_def field_def)
  from parse_flight_offer_preserves_counts [of sparse_offer "normalized_offer sparse_offer"] r
  have n: "length (items (normalized_offer sparse_offer) ''itineraries'')
             = length (items sparse_offer ''itineraries'')"
    by simp
  from parse_flight_offer_preserves_counts [of "priced_offer ''B'' (JStr ''99.99'')" JNull]
    priced_offer_shape e
  have z: "\<exists>p. parse_flight_offer (priced_offer ''B'' (JStr ''99.99'')) = Inr p
          \<and> items p ''itineraries'' = []"
    by simp
  have m: "map (\<lambda>pit. length (items pit ''segments''))
        (items (normalized_offer sparse_offer) ''itineraries'') = [2, 0]"
    by (simp add: items_normalized_offer items_normalized_itinerary i s1 s2)
  from n have "length (items (normalized_offer sparse_offer) ''itineraries'') = 2"
    by (simp add: i)
  with r z m e priced_offer_shape show ?thesis
    by (simp add: i s1 s2)
qed

text \<open>
  C5, as the claim has it, fails: an offer with zero itineraries whose \<^verbatim>\<open>price\<close> is
  present and holds \<^verbatim>\<open>None\<close> yields an error, not a ParsedOffer.
\<close>

theorem parse_flight_offer_no_itineraries_raises:
  "items offer_null_price_no_itineraries ''itineraries'' = []
   \<and> parse_flight_offer offer_null_price_no_itineraries = Inl AttributeError"
  by (simp add: offer_null_price_no_itineraries_def items_def field_def parse_flight_offer_def
        get2_def py_get_def)

text \<open>
  C6, as the code has it. When the capability returns a list of \<open>N\<close> raw offers, each
  of the shape the normalizer reads, whose price totals are all parseable,
  \<^verbatim>\<open>compare_flights\<close> returns \<open>N\<close> parsed offers: the normalized offers of the
  list, each as often as it occurs there.
\<close>

theorem compare_flights_returns_every_offer:
  "api (request_params req) = Response (JList raw) \<Longrightarrow>
   list_all offer_shape raw \<Longrightarrow>
   list_all (\<lambda>offer. parseable rt (raw_total offer)) raw \<Longrightarrow>
   \<exists>ranked. compare_flights rt api req = Inr ranked
     \<and> length ranked = length raw
     \<and> mset ranked = mset (map normalized_offer raw)"
  by (rule compare_flights_all)

text \<open>
  Four offers in, four offers out.
\<close>

theorem compare_flights_returns_every_offer_witness:
  "api_returning four_offers (request_params example_request) = Response (JList four_offers)
   \<and> list_all offer_shape four_offers
   \<and> list_all (\<lambda>offer. parseable decimal_runtime (raw_total offer)) four_offers
   \<and> length four_offers = 4
   \<and> (\<exists>ranked. compare_flights decimal_runtime (api_returning four_offers) example_request = Inr ranked
         \<and> length ranked = 4
         \<and> mset ranked = mset (map normalized_offer four_offers))"
proof -
  have l: "length four_offers = 4" by (simp add: four_offers_def)
  from compare_flights_returns_every_offer
         [of "api_returning four_offers" example_request four_offers decimal_runtime]
  show ?thesis
    using four_offers_shape four_offers_parseable by (simp add: l api_returning_params)
qed

text \<open>
  C6, as the claim has it, fails: one raw offer whose price total is parseable and whose
  \<^verbatim>\<open>itineraries\<close> is \<^verbatim>\<open>None\<close> gives no ParsedOffer but a \<^verbatim>\<open>TypeError\<close>.
\<close>

theorem compare_flights_one_offer_raises:
  "parseable decimal_runtime (raw_total offer_null_itineraries)
   \<and> length [offer_null_itineraries] = 1
   \<and> compare_flights decimal_runtime (api_returning [offer_null_itineraries]) example_request
       = Inl TypeError"
proof -
  have "compare_flights decimal_runtime (api_returning [offer_null_itineraries]) example_request
        = bnd (for_each parse_flight_offer [offer_null_itineraries])
            (sort_by_price decimal_runtime)"
    by (rule compare_flights_list) (rule api_returning_params)
  then show ?thesis
    by (simp add: parse_offer_null_itineraries parseable_def raw_total_offer_null_itineraries
          py_float_1)
qed

text \<open>
  C7, as the code has it. Whenever \<^verbatim>\<open>parse_segment\<close> returns, the Segment record holds every key, the
  three keys of \<^verbatim>\<open>departure\<close> and of \<^verbatim>\<open>arrival\<close> included, and the aircraft and
  the terminals that the raw segment lacks are \<^verbatim>\<open>None\<close>; it returns for every segment
  of the shape the code reads. The same holds for every segment of every itinerary of
  a ParsedOffer that \<^verbatim>\<open>parse_flight_offer\<close> returns.
\<close>

theorem parse_segment_keys_present:
  "(parse_segment seg = Inr out \<longrightarrow> segment_complete seg out)
   \<and> (segment_shape seg \<longrightarrow> (\<exists>out. parse_segment seg = Inr out))
   \<and> (parse_flight_offer offer = Inr parsed \<longrightarrow>
        list_all2
          (\<lambda>rit pit. list_all2 segment_complete (items rit ''segments'') (items pit ''segments''))
          (items offer ''itineraries'') (items parsed ''itineraries''))
   \<and> (offer_shape offer \<longrightarrow> (\<exists>parsed. parse_flight_offer offer = Inr parsed))"
proof (intro conjI impI)
  assume "parse_segment seg = Inr out"
  then show "segment_complete seg out" by (rule parse_segment_complete)
next
  assume "segment_shape seg"
  then show "\<exists>out. parse_segment seg = Inr out" by (simp add: parse_segment_shape)
next
  assume "parse_flight_offer offer = Inr parsed"
  then have "list_all2
           (\<lambda>rit pit. parse_itinerary rit = Inr pit
              \<and> list_all2 (\<lambda>rseg pseg. parse_segment rseg = Inr pseg)
                  (items rit ''segments'') (items pit ''segments''))
           (items offer ''itineraries'') (items parsed ''itineraries'')"
    by (rule parse_flight_offer_walk)
  then show "list_all2
          (\<lambda>rit pit. list_all2 segment_complete (items rit ''segments'') (items pit ''segments''))
          (items offer ''itineraries'') (items parsed ''itineraries'')"
    by (rule list_all2_mono) (auto elim: list_all2_mono dest: parse_segment_complete)
next
  assume "offer_shape offer"
  then show "\<exists>parsed. parse_flight_offer offer = Inr parsed"
    by (simp add: parse_flight_offer_shape)
qed

text \<open>A segment without aircraft and without departure terminal.\<close>

theorem parse_segment_keys_present_witness:
  "segment_shape segment_no_terminal
   \<and> \<not> has_key segment_no_terminal ''aircraft''
   \<and> \<not> has_key (field segment_no_terminal ''departure'') ''terminal''
   \<and> parse_segment segment_no_terminal = Inr (normalized_segment segment_no_terminal)
   \<and> has_key (normalized_segment segment_no_terminal) ''aircraft''
   \<and> field (normalized_segment segment_no_terminal) ''aircraft'' = JNull
   \<and> has_key (field (normalized_segment segment_no_terminal) ''departure'') ''terminal''
   \<and> field (field (normalized_segment segment_no_terminal) ''departure'') ''terminal'' = JNull
   \<and> field (field (normalized_segment segment_no_terminal) ''arrival'') ''terminal'' = JStr ''4''
   \<and> offer_shape sparse_offer
   \<and> parse_flight_offer sparse_offer = Inr (normalized_offer sparse_offer)
   \<and> list_all2
        (\<lambda>rit pit. list_all2 segment_complete (items rit ''segments'') (items pit ''segments''))
        (items sparse_offer ''itineraries'') (items (normalized_offer sparse_offer) ''itineraries'')"
proof -
  have p: "parse_segment segment_no_terminal = Inr (normalized_segment segment_no_terminal)"
    using segment_no_terminal_shape by (rule parse_segment_shape)
  have r: "parse_flight_offer sparse_offer = Inr (normalized_offer sparse_offer)"
    using sparse_offer_shape by (rule parse_flight_offer_shape)
  have a: "\<not> has_key segment_no_terminal ''aircraft''"
    and t: "\<not> has_key (field segment_no_terminal ''departure'') ''terminal''"
    by (simp_all add: segment_no_terminal_def has_key_def field_def)
  have a': "\<not> has_key (field segment_no_terminal ''aircraft'') ''code''"
    by (simp add: segment_no_terminal_def has_key_def field_def)
  from parse_segment_keys_present
         [of segment_no_terminal "normalized_segment segment_no_terminal"
             sparse_offer "normalized_offer sparse_offer"] p r
  have c: "segment_complete segment_no_terminal (normalized_segment segment_no_terminal)"
    and l: "list_all2
        (\<lambda>rit pit. list_all2 segment_complete (items rit ''segments'') (items pit ''segments''))
        (items sparse_offer ''itineraries'') (items (normalized_offer sparse_offer) ''itineraries'')"
    by simp_all
  from c a' t have "field (normalized_segment segment_no_terminal) ''aircraft'' = JNull"
    and "field (field (normalized_segment segment_no_terminal) ''departure'') ''terminal'' = JNull"
    by (simp_all add: segment_complete_def)
  moreover have "has_key (normalized_segment segment_no_terminal) ''aircraft''"
    and "has_key (field (normalized_segment segment_no_terminal) ''departure'') ''terminal''"
    and "field (field (normalized_segment segment_no_terminal) ''arrival'') ''terminal'' = JStr ''4''"
    by (simp_all add: normalized_segment_def normalized_endpoint_def has_key_def field_JDict
          segment_no_terminal_def)
  ultimately show ?thesis
    using p r a t l segment_no_terminal_shape sparse_offer_shape by simp
qed

text \<open>
  C7, as the claim has it, fails: a segment that lacks its departure terminal and whose
  \<^verbatim>\<open>aircraft\<close> is present and holds a string makes
  \<^verbatim>\<open>segment.get('aircraft', {}).get('code')\<close> raise, in \<^verbatim>\<open>parse_segment\<close> and so
  in \<^verbatim>\<open>parse_flight_offer\<close>.
\<close>

theorem parse_segment_aircraft_text_raises:
  "\<not> has_key (field segment_aircraft_text ''departure'') ''terminal''
   \<and> parse_segment segment_aircraft_text = Inl AttributeError
   \<and> parse_flight_offer offer_aircraft_text = Inl AttributeError"
proof -
  have p: "parse_segment segment_aircraft_text = Inl AttributeError"
    by (simp add: parse_segment_def segment_aircraft_text_def get2_def py_get_def)
  have "parse_itinerary (JDict [(''segments'', JList [segment_aircraft_text])])
          = Inl AttributeError"
    by (simp add: parse_itinerary_def py_get_def py_iter_def p)
  then have "parse_flight_offer offer_aircraft_text = Inl AttributeError"
    by (simp add: parse_flight_offer_def offer_aircraft_text_def get2_def py_get_def
          py_iter_def)
  moreover have "\<not> has_key (field segment_aircraft_text ''departure'') ''terminal''"
    by (simp add: segment_aircraft_text_def has_key_def field_def)
  ultimately show ?thesis using p by simp
qed

text \<open>
  C8. The parameters of the outbound call hold the key \<^verbatim>\<open>returnDate\<close> if and only if
  the request carries a return date (a string other than the empty one; \<^verbatim>\<open>None\<close>
  and the empty string carry none), and then with that date as its value. With the
  round-trip box of the form not ticked the key is not among the parameters at all. The
  capability is called with exactly these parameters.
\<close>

theorem request_params_returnDate:
  "(''returnDate'' \<in> set (map fst (request_params req))
      \<longleftrightarrow> (\<exists>d. return_date req = Some d \<and> d \<noteq> []))
   \<and> (\<forall>d. return_date req = Some d \<and> d \<noteq> [] \<longrightarrow>
         map_of (request_params req) ''returnDate'' = Some (JStr d))
   \<and> (\<not> return_enabled \<longrightarrow>
         ''returnDate'' \<notin> set (map fst (request_params
            (req\<lparr>return_date := perform_search_return_date return_enabled return_cal\<rparr>))))
   \<and> (api (request_params req) = api' (request_params req) \<longrightarrow>
         search_flights api req = search_flights api' req)"
  by (cases "return_date req")
     (auto simp: request_params_def perform_search_return_date_def search_flights_def)

text \<open>
  A one-way and a round-trip request.
\<close>

theorem request_params_returnDate_witness:
  "return_date example_request = None
   \<and> ''returnDate'' \<notin> set (map fst (request_params example_request))
   \<and> return_date round_trip_request = Some ''2026-03-08''
   \<and> ''returnDate'' \<in> set (map fst (request_params round_trip_request))
   \<and> map_of (request_params round_trip_request) ''returnDate'' = Some (JStr ''2026-03-08'')
   \<and> ''returnDate'' \<notin> set (map fst (request_params
        (round_trip_request\<lparr>return_date := perform_search_return_date False ''2026-03-08''\<rparr>)))"
  using request_params_returnDate [of example_request False "''2026-03-08''" api_no_offers api_no_offers]
    request_params_returnDate [of round_trip_request False "''2026-03-08''" api_no_offers api_no_offers]
  by (simp add: example_request_def round_trip_request_def with_defaults_def)





end
